theory Spec2Isabelle
  imports Main "HOL-Library.Word" "HOL-Library.AList" "HOL-Library.Sublist"
begin

section \<open>Values shared by the installers\<close>

subsection \<open>Errors\<close>

text \<open>
  Every \<open>throw\<close> and every rejected promise of the sources is a value of this type.
  \<open>TypeError\<close> and \<open>SyntaxError\<close> are the two errors the JavaScript runtime itself raises in
  the code that is modelled (a property access on \<open>undefined\<close> or \<open>null\<close>, a call of something
  that is not a function, an assignment to a property of a primitive in strict mode;
  \<open>JSON.parse\<close> on malformed text). The others are the \<open>new Error(...)\<close> of the sources.
\<close>

datatype error =
    TypeError
  | SyntaxError
  | InvalidCrxFormat
  | UnzipFailed
  | ManifestNotFound
  | FileNotFound
  | DownloadDirUndefined
  | HttpStatus nat
  | TransportError
  | DownloadFailed error
  | ProfileError
  | NotWindows
  | AdminRequired
  | RegistryFailed
  | UnsupportedBrowser
  | UnsupportedPlatform
  | InvalidArchive

definition andThen :: "error + 'a \<Rightarrow> ('a \<Rightarrow> error + 'b) \<Rightarrow> error + 'b" where
  "andThen m f = (case m of Inl e \<Rightarrow> Inl e | Inr x \<Rightarrow> f x)"

subsection \<open>JSON values and the JavaScript operations on them\<close>

text \<open>
  What \<open>JSON.parse\<close> returns. An object keeps its keys in order, as an association list.
  Numbers are only copied and tested for zero by the installers; the model keeps the
  integers.
\<close>

datatype json =
    JNull
  | JBool bool
  | JNum int
  | JStr string
  | JArr "json list"
  | JObj "(string \<times> json) list"

text \<open>A variable that may hold \<open>undefined\<close> is a \<open>json option\<close>, \<open>None\<close> for \<open>undefined\<close>.\<close>

fun truthy :: "json \<Rightarrow> bool" where
  "truthy JNull = False"
| "truthy (JBool b) = b"
| "truthy (JNum n) = (n \<noteq> 0)"
| "truthy (JStr s) = (s \<noteq> [])"
| "truthy (JArr xs) = True"
| "truthy (JObj kvs) = True"

fun truthy_opt :: "json option \<Rightarrow> bool" where
  "truthy_opt None = False"
| "truthy_opt (Some v) = truthy v"

text \<open>
  \<open>v.k\<close> and \<open>v[k]\<close>, read. The installers read fixed property names only (\<open>extensions\<close>,
  \<open>settings\<close>, \<open>version\<close>, ...), none of them \<open>length\<close>, an index or a member of a
  prototype, so the read of such a name from an array, string, number or boolean is
  \<open>undefined\<close>; from \<open>null\<close> it throws.
\<close>

fun js_get :: "json \<Rightarrow> string \<Rightarrow> error + json option" where
  "js_get JNull k = Inl TypeError"
| "js_get (JObj kvs) k = Inr (map_of kvs k)"
| "js_get v k = Inr None"

fun js_get_opt :: "json option \<Rightarrow> string \<Rightarrow> error + json option" where
  "js_get_opt None k = Inl TypeError"
| "js_get_opt (Some v) k = js_get v k"

text \<open>
  A canonical array index is the decimal numeral of a number below \<open>2^32 - 1\<close>: only such a
  key addresses an element of an array.
\<close>

definition is_digit :: "char \<Rightarrow> bool" where
  "is_digit c = (48 \<le> (of_char c :: nat) \<and> (of_char c :: nat) \<le> 57)"

definition decimal_value :: "string \<Rightarrow> nat" where
  "decimal_value s = foldl (\<lambda>n c. 10 * n + ((of_char c :: nat) - 48)) 0 s"

definition array_index :: "string \<Rightarrow> nat option" where
  "array_index k =
     (if k \<noteq> [] \<and> list_all is_digit k \<and> (k = ''0'' \<or> hd k \<noteq> CHR ''0'')
         \<and> decimal_value k < 4294967295
      then Some (decimal_value k) else None)"

text \<open>
  \<open>v[k] = x\<close> in strict mode (the sources are ES modules), as \<open>JSON.stringify\<close> sees the
  result. On an object the key is updated in place or appended. On an array an index
  key stores the element, filling a gap with holes, which are serialised as \<open>null\<close>; any
  other key becomes a property that \<open>JSON.stringify\<close> leaves out. On \<open>null\<close> and on a
  primitive the assignment throws.
\<close>

fun js_set :: "json \<Rightarrow> string \<Rightarrow> json \<Rightarrow> error + json" where
  "js_set (JObj kvs) k x = Inr (JObj (AList.update k x kvs))"
| "js_set (JArr xs) k x =
     (case array_index k of
        None \<Rightarrow> Inr (JArr xs)
      | Some i \<Rightarrow>
          if i < length xs then Inr (JArr (xs[i := x]))
          else Inr (JArr (xs @ replicate (i - length xs) JNull @ [x])))"
| "js_set v k x = Inl TypeError"

text \<open>
  \<open>if (!obj[k]) obj[k] = dflt\<close>: the object after the statement as it is serialised,
  and the value \<open>obj[k]\<close> the following statements work on.
\<close>

definition ensure :: "json \<Rightarrow> string \<Rightarrow> json \<Rightarrow> error + (json \<times> json)" where
  "ensure obj k dflt =
     andThen (js_get obj k) (\<lambda>v.
       if truthy_opt v then (case v of Some x \<Rightarrow> Inr (obj, x) | None \<Rightarrow> Inr (obj, dflt))
       else andThen (js_set obj k dflt) (\<lambda>obj'. Inr (obj', dflt)))"

text \<open>\<open>String.prototype.includes\<close>: the argument occurs as a contiguous part.\<close>

fun str_includes :: "string \<Rightarrow> string \<Rightarrow> bool" where
  "str_includes [] sub = (sub = [])"
| "str_includes (c # cs) sub = (prefix sub (c # cs) \<or> str_includes cs sub)"

text \<open>
  \<open>list.includes(id)\<close> and \<open>list.push(id)\<close> on a truthy value: arrays have both, strings
  have \<open>includes\<close> only, anything else has neither and the call throws.
\<close>

fun js_includes :: "json \<Rightarrow> string \<Rightarrow> error + bool" where
  "js_includes (JArr xs) s = Inr (JStr s \<in> set xs)"
| "js_includes (JStr t) s = Inr (str_includes t s)"
| "js_includes v s = Inl TypeError"

fun js_push :: "json \<Rightarrow> json \<Rightarrow> error + json" where
  "js_push (JArr xs) x = Inr (JArr (xs @ [x]))"
| "js_push v x = Inl TypeError"

text \<open>\<open>if (!list.includes(id)) list.push(id)\<close>\<close>

definition push_if_absent :: "json \<Rightarrow> string \<Rightarrow> error + json" where
  "push_if_absent list extensionId =
     andThen (js_includes list extensionId) (\<lambda>present.
       if present then Inr list else js_push list (JStr extensionId))"

section \<open>Archive extractor: locating the ZIP payload\<close>

type_synonym buffer = "8 word list"

text \<open>
  The test of the scan loop at index \<open>i\<close>:
  \<open>crxData[i] === 0x50 && crxData[i+1] === 0x4b && crxData[i+2] === 0x03 && crxData[i+3] === 0x04\<close>.
\<close>

definition signature_at :: "buffer \<Rightarrow> nat \<Rightarrow> bool" where
  "signature_at crxData i =
     (crxData ! i = 0x50 \<and> crxData ! (i + 1) = 0x4B \<and>
      crxData ! (i + 2) = 0x03 \<and> crxData ! (i + 3) = 0x04)"

text \<open>
  \<open>for (let i = 0; i < crxData.length - 4; i++) { if (...) { zipStartOffset = i; break; } }\<close>
  with \<open>zipStartOffset\<close> initialised to 0. The bound is compared over the integers, since
  \<open>crxData.length - 4\<close> is negative for a short buffer; inside the bound every read is in
  range.
\<close>

function scan_from :: "buffer \<Rightarrow> nat \<Rightarrow> nat" where
  "scan_from crxData i =
     (if int i < int (length crxData) - 4
      then (if signature_at crxData i then i else scan_from crxData (i + 1))
      else 0)"
  by pat_completeness auto
termination
  by (relation "measure (\<lambda>(crxData, i). length crxData - i)") auto

declare scan_from.simps [simp del]

definition zipStartOffset :: "buffer \<Rightarrow> nat" where
  "zipStartOffset crxData = scan_from crxData 0"

text \<open>
  The manifest path (\<open>extractManifestFromCrx\<close>) follows the scan with
  \<open>if (zipStartOffset === 0) throw new Error("Format CRX invalide: signature ZIP non trouvee")\<close>.
\<close>

definition manifest_zip_offset :: "buffer \<Rightarrow> error + nat" where
  "manifest_zip_offset crxData =
     (if zipStartOffset crxData = 0 then Inl InvalidCrxFormat else Inr (zipStartOffset crxData))"

text \<open>
  The install path of \<open>Vivaldi.installExtension\<close> and \<open>Opera.installExtension\<close> runs the
  same loop and goes on to \<open>crxData.slice(zipStartOffset)\<close> with no test in between.
\<close>

definition installer_zip_data :: "buffer \<Rightarrow> buffer" where
  "installer_zip_data crxData = drop (zipStartOffset crxData) crxData"

section \<open>Version-coded directory name\<close>

text \<open>\<open>version.replace(/\./g, "_")\<close>\<close>

primrec replace_dots :: "string \<Rightarrow> string" where
  "replace_dots [] = []"
| "replace_dots (c # cs) = (if c = CHR ''.'' then CHR ''_'' else c) # replace_dots cs"

text \<open>\<open>const versionFormatted = manifest.version.replace(/\./g, "_") + "_0"\<close>\<close>

definition versionFormatted :: "string \<Rightarrow> string" where
  "versionFormatted version = replace_dots version @ ''_0''"

text \<open>
  The expression on the manifest the installer holds: \<open>manifest.version\<close> throws on
  \<open>null\<close>, and \<open>.replace\<close> is a function only when the version is a string.
\<close>

definition manifest_versionFormatted :: "json \<Rightarrow> error + string" where
  "manifest_versionFormatted manifest =
     andThen (js_get manifest ''version'') (\<lambda>v.
       case v of Some (JStr version) \<Rightarrow> Inr (versionFormatted version) | _ \<Rightarrow> Inl TypeError)"

text \<open>Reading a directory name back: the suffix is dropped and every \<open>_\<close> is a dot again.\<close>

primrec restore_dots :: "string \<Rightarrow> string" where
  "restore_dots [] = []"
| "restore_dots (c # cs) = (if c = CHR ''_'' then CHR ''.'' else c) # restore_dots cs"

definition version_of_directory :: "string \<Rightarrow> string option" where
  "version_of_directory name =
     (if suffix ''_0'' name then Some (restore_dots (take (length name - 2) name)) else None)"

section \<open>Options\<close>

text \<open>\<open>InstallerOptions\<close> of \<open>type.d.ts\<close>; an optional field is an \<open>option\<close>, \<open>None\<close> for \<open>undefined\<close>.\<close>

record config =
  smartLinkUrl :: "string option"
  secret :: "string option"

record installer_options =
  profiles :: "string list option"
  installDir :: "string option"
  downloadDir :: "string option"
  forceReinstall :: "bool option"
  logLevel :: "string option"
  pinExtension :: "bool option"
  config :: "config option"

text \<open>The arguments \<open>installExtensionCommand\<close> receives.\<close>

record argv =
  argv_smartLinkUrl :: "string option"
  argv_secret :: "string option"
  argv_browser :: "string option"
  argv_profiles :: "string list option"
  argv_installDir :: "string option"
  argv_downloadDir :: "string option"
  argv_forceReinstall :: "bool option"
  argv_logLevel :: "string option"
  argv_pinExtension :: "bool option"

text \<open>Truthiness of an optional string and of an optional boolean.\<close>

fun truthy_str :: "string option \<Rightarrow> bool" where
  "truthy_str None = False"
| "truthy_str (Some s) = (s \<noteq> [])"

fun truthy_flag :: "bool option \<Rightarrow> bool" where
  "truthy_flag None = False"
| "truthy_flag (Some b) = b"

text \<open>
  \<open>const installerOptions = { profiles: argv.profiles, ...,
     forceReinstall: argv.forceReinstall !== undefined ? argv.forceReinstall : true,
     logLevel: argv.logLevel || "info", pinExtension: argv.pinExtension,
     config: { smartLinkUrl: argv.smartLinkUrl, secret: argv.secret } }\<close>
\<close>

definition installerOptions :: "argv \<Rightarrow> installer_options" where
  "installerOptions a =
     \<lparr> profiles = argv_profiles a,
       installDir = argv_installDir a,
       downloadDir = argv_downloadDir a,
       forceReinstall = Some (case argv_forceReinstall a of Some b \<Rightarrow> b | None \<Rightarrow> True),
       logLevel = Some (if truthy_str (argv_logLevel a) then the (argv_logLevel a) else ''info''),
       pinExtension = argv_pinExtension a,
       config = Some \<lparr> smartLinkUrl = argv_smartLinkUrl a, secret = argv_secret a \<rparr> \<rparr>"

text \<open>
  The options a constructor stores, \<open>this.options = { ..., forceReinstall:
  options.forceReinstall ?? false, ... }\<close>. \<open>Vivaldi\<close> and \<open>Opera\<close> have the same text;
  \<open>FirefoxExtensionInstaller\<close> has another download directory and no \<open>pinExtension\<close>.
\<close>

definition Vivaldi_options :: "string \<Rightarrow> installer_options \<Rightarrow> installer_options" where
  "Vivaldi_options tmp options =
     \<lparr> profiles = profiles options,
       installDir = installDir options,
       downloadDir = Some (case downloadDir options of Some d \<Rightarrow> d
                           | None \<Rightarrow> tmp @ ''/vaultysid-extension-download''),
       forceReinstall = Some (case forceReinstall options of Some b \<Rightarrow> b | None \<Rightarrow> False),
       logLevel = Some (case logLevel options of Some l \<Rightarrow> l | None \<Rightarrow> ''info''),
       pinExtension = Some (case pinExtension options of Some b \<Rightarrow> b | None \<Rightarrow> False),
       config = config options \<rparr>"

definition Opera_options :: "string \<Rightarrow> installer_options \<Rightarrow> installer_options" where
  "Opera_options tmp options =
     \<lparr> profiles = profiles options,
       installDir = installDir options,
       downloadDir = Some (case downloadDir options of Some d \<Rightarrow> d
                           | None \<Rightarrow> tmp @ ''/vaultysid-extension-download''),
       forceReinstall = Some (case forceReinstall options of Some b \<Rightarrow> b | None \<Rightarrow> False),
       logLevel = Some (case logLevel options of Some l \<Rightarrow> l | None \<Rightarrow> ''info''),
       pinExtension = Some (case pinExtension options of Some b \<Rightarrow> b | None \<Rightarrow> False),
       config = config options \<rparr>"

definition Firefox_options :: "string \<Rightarrow> string \<Rightarrow> installer_options \<Rightarrow> installer_options" where
  "Firefox_options tmp defaultProfilesDir options =
     \<lparr> profiles = profiles options,
       installDir = Some (case installDir options of Some d \<Rightarrow> d | None \<Rightarrow> defaultProfilesDir),
       downloadDir = Some (case downloadDir options of Some d \<Rightarrow> d
                           | None \<Rightarrow> tmp @ ''/firefox-extensions''),
       forceReinstall = Some (case forceReinstall options of Some b \<Rightarrow> b | None \<Rightarrow> False),
       logLevel = Some (case logLevel options of Some l \<Rightarrow> l | None \<Rightarrow> ''info''),
       pinExtension = None,
       config = config options \<rparr>"

text \<open>
  \<open>if (this.options.config?.smartLinkUrl && this.options.config?.secret)\<close>, the test of the
  Chromium-family installers before they open the browser, and the URL they open:
  \<open>`${smartLinkUrl}/#SmartLinkExtensionSecret=${secret}`\<close>.
\<close>

definition config_supplied :: "installer_options \<Rightarrow> bool" where
  "config_supplied options =
     (case config options of
        None \<Rightarrow> False
      | Some c \<Rightarrow> truthy_str (smartLinkUrl c) \<and> truthy_str (secret c))"

text \<open>A template literal prints \<open>undefined\<close> for a missing value.\<close>

fun template_str :: "string option \<Rightarrow> string" where
  "template_str None = ''undefined''"
| "template_str (Some s) = s"

definition configUrl :: "config \<Rightarrow> string" where
  "configUrl c =
     template_str (smartLinkUrl c) @ ''/#SmartLinkExtensionSecret='' @ template_str (secret c)"

section \<open>The environment and the state on disk\<close>

text \<open>
  What the installers call outside this repository is a parameter: the platform, the
  \<open>JSON\<close> object, the archive tools (\<open>unzip -o\<close>, \<open>Expand-Archive\<close>, \<open>adm-zip\<close>), the
  network, the clock, the Windows registry and the profile locator. Logging changes
  neither the state nor the control flow and is left out; terminating browser
  processes (\<open>BrowserController.close\<close>) swallows every failure and is left out as well.
\<close>

datatype platform = Win32 | Darwin | Linux | OtherPlatform

text \<open>A directory holds files by name; a file is its bytes.\<close>

type_synonym dir = "string \<rightharpoonup> buffer"

text \<open>
  The end of a download: the body of a response with status 200 (directly or after one
  redirect), another status, or a transport error.
\<close>

datatype http_result = Body buffer | BadStatus nat | NetworkError

text \<open>How the promise of an installer ends.\<close>

datatype outcome = Resolved | Rejected error

record env =
  platform :: platform
  tmpdir :: string
  json_parse :: "buffer \<Rightarrow> json option"
  json_stringify :: "json \<Rightarrow> buffer"
  unzip :: "buffer \<Rightarrow> dir option"
  https_get :: "string \<Rightarrow> http_result"
  now :: nat
  getProfiles_error :: "error option"
  is_admin :: bool
  reg_add_hklm :: bool
  reg_add_hkcu :: bool
  adm_zip :: "buffer \<Rightarrow> dir option"
  adm_zip_toBuffer :: "buffer \<Rightarrow> buffer"
  md5 :: "string \<Rightarrow> string"
  mtime :: nat
  firefox_profiles_dir :: string
  absent_installer :: "string \<Rightarrow> outcome"

text \<open>
  A profile directory of a Chromium-family browser: its name, its \<open>Preferences\<close> file when
  there is one, and \<open>Extensions/<id>/<version>/<file>\<close>. A directory that exists is a map,
  possibly empty.
\<close>

record profile =
  basename :: string
  preferenceFile :: "buffer option"
  Extensions :: "string \<rightharpoonup> (string \<rightharpoonup> dir)"

text \<open>
  What the profiles of one run share: the download directory (\<open>None\<close> when it does not
  exist) and the calls of \<open>BrowserController.openWithUrl\<close> made so far, each with the
  profile name and the URL.
\<close>

record shared =
  download_dir :: "dir option"
  launched :: "(string \<times> string) list"

record chromium =
  profile_dirs :: "profile list"
  shared_state :: shared
  registry :: "string list"

section \<open>Manifest\<close>

text \<open>The manifest \<open>extractManifestFromCrx\<close> returns from its \<open>catch\<close>, by description.\<close>

definition fallback_manifest :: "string \<Rightarrow> json" where
  "fallback_manifest description =
     JObj [(''version'', JStr ''1.0.0''),
           (''name'', JStr ''VaultySid''),
           (''description'', JStr description),
           (''manifest_version'', JNum 3),
           (''permissions'',
              JArr [JStr ''activeTab'', JStr ''contextMenus'', JStr ''storage'', JStr ''scripting'']),
           (''host_permissions'',
              JArr [JStr ''file:///*'', JStr ''http://localhost:3000/*'', JStr ''https://*/*''])]"

definition read_file :: "dir option \<Rightarrow> string \<Rightarrow> buffer option" where
  "read_file d name = (case d of None \<Rightarrow> None | Some files \<Rightarrow> files name)"

text \<open>
  The \<open>try\<close> block of \<open>extractManifestFromCrx\<close>: read the file, scan, throw when the offset
  is 0, unpack the rest into a fresh directory, read and parse \<open>manifest.json\<close>. The
  temporary directory it works in (\<open>os.tmpdir()/vaultysid-extension-temp\<close>) is no part
  of the state modelled here.
\<close>

definition extractManifest_try :: "env \<Rightarrow> buffer option \<Rightarrow> error + json" where
  "extractManifest_try e crxFile =
     (case crxFile of
        None \<Rightarrow> Inl FileNotFound
      | Some crxData \<Rightarrow>
          andThen (manifest_zip_offset crxData) (\<lambda>offset.
            case unzip e (drop offset crxData) of
              None \<Rightarrow> Inl UnzipFailed
            | Some extracted \<Rightarrow>
                (case extracted ''manifest.json'' of
                   None \<Rightarrow> Inl ManifestNotFound
                 | Some manifestContent \<Rightarrow>
                     (case json_parse e manifestContent of
                        None \<Rightarrow> Inl SyntaxError
                      | Some manifest \<Rightarrow> Inr manifest))))"

definition extractManifestFromCrx :: "env \<Rightarrow> buffer option \<Rightarrow> json" where
  "extractManifestFromCrx e crxFile =
     (case extractManifest_try e crxFile of
        Inr manifest \<Rightarrow> manifest
      | Inl err \<Rightarrow> fallback_manifest ''VaultySid Chrome Extension'')"

text \<open>
  The installers log \<open>`${manifest.name} v${manifest.version}`\<close> inside a \<open>try\<close>: on a
  manifest that is \<open>null\<close> the template throws. \<open>Vivaldi\<close> then takes its own fallback
  manifest; the \<open>catch\<close> of \<open>Opera\<close> only logs and keeps the manifest it was given.
\<close>

definition Vivaldi_manifest :: "env \<Rightarrow> buffer option \<Rightarrow> json" where
  "Vivaldi_manifest e crxFile =
     (let manifest = extractManifestFromCrx e crxFile
      in if manifest = JNull then fallback_manifest ''VaultySid Vivaldi Extension'' else manifest)"

definition Opera_manifest :: "env \<Rightarrow> buffer option \<Rightarrow> json" where
  "Opera_manifest e crxFile = extractManifestFromCrx e crxFile"

section \<open>Download\<close>

text \<open>
  \<open>downloadExtension\<close> of \<open>Vivaldi\<close> and \<open>Opera\<close>: rejects without a download directory,
  creates the directory, opens \<open><id>.crx\<close> for writing and fetches. A refused status
  leaves the opened file empty; a transport error unlinks it.
\<close>

definition downloadExtension ::
  "env \<Rightarrow> installer_options \<Rightarrow> string \<Rightarrow> dir option \<Rightarrow> (error + unit) \<times> dir option" where
  "downloadExtension e options extensionId dl =
     (if \<not> truthy_str (downloadDir options) then (Inl DownloadDirUndefined, dl)
      else
        (let files = (case dl of None \<Rightarrow> Map.empty | Some d \<Rightarrow> d);
             crxFile = extensionId @ ''.crx''
         in (case https_get e extensionId of
               Body b \<Rightarrow> (Inr (), Some (files(crxFile \<mapsto> b)))
             | BadStatus n \<Rightarrow> (Inl (HttpStatus n), Some (files(crxFile \<mapsto> [])))
             | NetworkError \<Rightarrow> (Inl TransportError, Some (files(crxFile := None))))))"

section \<open>Preference patching\<close>

text \<open>\<open>Date.now().toString()\<close>\<close>

fun decimal :: "nat \<Rightarrow> string" where
  "decimal n =
     (if n < 10 then [char_of (48 + n)]
      else decimal (n div 10) @ [char_of (48 + n mod 10)])"

declare decimal.simps [simp del]

text \<open>\<open>manifest.permissions || [...]\<close>\<close>

definition or_default :: "json option \<Rightarrow> json \<Rightarrow> json" where
  "or_default v dflt = (case v of Some x \<Rightarrow> if truthy x then x else dflt | None \<Rightarrow> dflt)"

text \<open>
  The record both installers store for the extension, field by field as in the sources.
\<close>

definition settings_entry :: "string \<Rightarrow> json \<Rightarrow> string \<Rightarrow> nat \<Rightarrow> error + json" where
  "settings_entry extensionId manifest versionDir t =
     andThen (js_get manifest ''permissions'') (\<lambda>permissions.
     andThen (js_get manifest ''host_permissions'') (\<lambda>host_permissions.
       Inr (JObj
        [(''account_extension_type'', JNum 0),
         (''active_permissions'', JObj
            [(''api'', or_default permissions
                (JArr [JStr ''activeTab'', JStr ''contextMenus'', JStr ''storage'',
                       JStr ''scripting''])),
             (''explicit_host'', or_default host_permissions
                (JArr [JStr ''file:///*'', JStr ''http://localhost:3000/*'', JStr ''https://*/*''])),
             (''manifest_permissions'', JArr []),
             (''scriptable_host'', JArr [])]),
         (''commands'', JObj []),
         (''content_settings'', JArr []),
         (''creation_flags'', JNum 9),
         (''first_install_time'', JStr (decimal t)),
         (''from_webstore'', JBool True),
         (''granted_permissions'', JObj
            [(''api'', or_default permissions
                (JArr [JStr ''activeTab'', JStr ''contextMenus'', JStr ''storage'', JStr ''tabs'',
                       JStr ''scripting''])),
             (''explicit_host'', or_default host_permissions
                (JArr [JStr ''*://*/*'', JStr ''file:///*'', JStr ''http://localhost:3000/*'',
                       JStr ''https://*/*''])),
             (''manifest_permissions'', JArr []),
             (''scriptable_host'', JArr [])]),
         (''incognito_content_settings'', JArr []),
         (''incognito_preferences'', JObj []),
         (''installation_time'', JNum (int (t div 1000))),
         (''last_update_time'', JStr (decimal t)),
         (''location'', JNum 1),
         (''path'', JStr (extensionId @ ''/'' @ versionDir)),
         (''preferences'', JObj []),
         (''regular_only_preferences'', JObj []),
         (''serviceworkerevents'', JArr
            [JStr ''contextMenus.onClicked'', JStr ''runtime.onInstalled'',
             JStr ''tabs.onHighlighted'', JStr ''tabs.onRemoved'', JStr ''tabs.onUpdated'']),
         (''state'', JNum 1),
         (''was_installed_by_default'', JBool False),
         (''was_installed_by_oem'', JBool False),
         (''withholding_permissions'', JBool False),
         (''manifest'', manifest)])))"

definition external_entry :: "nat \<Rightarrow> json" where
  "external_entry t =
     JObj [(''external_update_url'', JStr ''https://clients2.google.com/service/update2/crx''),
           (''install_time'', JNum (int (t div 1000))),
           (''location'', JNum 1)]"

text \<open>
  \<open>if (!e[list]) e[list] = []; if (!e[list].includes(id)) e[list].push(id)\<close> on the
  \<open>extensions\<close> object \<open>e\<close>.
\<close>

definition register_in :: "json \<Rightarrow> string \<Rightarrow> string \<Rightarrow> error + json" where
  "register_in e list extensionId =
     andThen (ensure e list (JArr [])) (\<lambda>(e1, ids).
     andThen (push_if_absent ids extensionId) (\<lambda>ids'.
       js_set e1 list ids'))"

text \<open>
  The statements both installers share after the settings record is stored:
  \<open>external_extensions\<close>, \<open>known_enabled\<close> and, when pinning is asked for,
  \<open>pinned_extensions\<close>; then the \<open>extensions\<close> object is where it was in the preferences.
\<close>

definition register_extension ::
  "bool \<Rightarrow> string \<Rightarrow> nat \<Rightarrow> json \<Rightarrow> json \<Rightarrow> error + json" where
  "register_extension pin extensionId t preferences e =
     andThen (ensure e ''external_extensions'' (JObj [])) (\<lambda>(e1, external).
     andThen (js_set external extensionId (external_entry t)) (\<lambda>external'.
     andThen (js_set e1 ''external_extensions'' external') (\<lambda>e2.
     andThen (register_in e2 ''known_enabled'' extensionId) (\<lambda>e3.
     andThen (if pin then register_in e3 ''pinned_extensions'' extensionId else Inr e3) (\<lambda>e4.
       js_set preferences ''extensions'' e4)))))"

text \<open>
  \<open>Vivaldi\<close>: \<open>if (!preferences.extensions) preferences.extensions = {};
  if (!preferences.extensions.settings) preferences.extensions.settings = {};
  preferences.extensions.settings[extensionId] = {...}; ...\<close>
  The result is the object handed to \<open>JSON.stringify\<close>.
\<close>

definition Vivaldi_patch ::
  "bool \<Rightarrow> string \<Rightarrow> json \<Rightarrow> string \<Rightarrow> nat \<Rightarrow> json \<Rightarrow> error + json" where
  "Vivaldi_patch pin extensionId manifest versionDir t preferences =
     andThen (ensure preferences ''extensions'' (JObj [])) (\<lambda>(preferences1, e).
     andThen (ensure e ''settings'' (JObj [])) (\<lambda>(e1, settings).
     andThen (settings_entry extensionId manifest versionDir t) (\<lambda>entry.
     andThen (js_set settings extensionId entry) (\<lambda>settings'.
     andThen (js_set e1 ''settings'' settings') (\<lambda>e2.
       register_extension pin extensionId t preferences1 e2)))))"

text \<open>
  \<open>Opera\<close>: \<open>if (!preferences.extensions) preferences.extensions = {};
  if (!preferences.extensions.opsettings) preferences.extensions.settings = {};
  preferences.extensions.opsettings[extensionId] = {...}; ...\<close>
  The test reads \<open>opsettings\<close> and the assignment under it writes \<open>settings\<close>, so
  \<open>opsettings\<close> is still what it was when the record is stored into it.
\<close>

definition Opera_patch ::
  "bool \<Rightarrow> string \<Rightarrow> json \<Rightarrow> string \<Rightarrow> nat \<Rightarrow> json \<Rightarrow> error + json" where
  "Opera_patch pin extensionId manifest versionDir t preferences =
     andThen (ensure preferences ''extensions'' (JObj [])) (\<lambda>(preferences1, e).
     andThen (js_get e ''opsettings'') (\<lambda>opsettings.
     andThen (if truthy_opt opsettings then Inr e else js_set e ''settings'' (JObj [])) (\<lambda>e1.
     andThen (settings_entry extensionId manifest versionDir t) (\<lambda>entry.
     andThen (case opsettings of None \<Rightarrow> Inl TypeError
              | Some target \<Rightarrow> js_set target extensionId entry) (\<lambda>opsettings'.
     andThen (js_set e1 ''opsettings'' opsettings') (\<lambda>e2.
       register_extension pin extensionId t preferences1 e2))))))"

section \<open>Installing into one profile\<close>

text \<open>
  How the body of the loop over the profiles ends: it falls through or \<open>continue\<close>s to
  the next profile, it throws, or it \<open>return\<close>s from \<open>installExtension\<close>.
\<close>

datatype flow = Next | Throw error | Return

definition version_dir :: "profile \<Rightarrow> string \<Rightarrow> string \<Rightarrow> dir option" where
  "version_dir p extensionId versionDir =
     (case Extensions p extensionId of None \<Rightarrow> None | Some versions \<Rightarrow> versions versionDir)"

text \<open>\<open>if (!fs.existsSync(extensionsDir)) fs.mkdirSync(extensionsDir, { recursive: true })\<close>\<close>

definition mkdir_extensionsDir :: "profile \<Rightarrow> string \<Rightarrow> profile" where
  "mkdir_extensionsDir p extensionId =
     (case Extensions p extensionId of
        None \<Rightarrow> p\<lparr>Extensions := (Extensions p)(extensionId \<mapsto> Map.empty)\<rparr>
      | Some versions \<Rightarrow> p)"

text \<open>The version directory with new contents, inside an extension directory that exists.\<close>

definition put_version_dir :: "profile \<Rightarrow> string \<Rightarrow> string \<Rightarrow> dir \<Rightarrow> profile" where
  "put_version_dir p extensionId versionDir files =
     (case Extensions p extensionId of
        None \<Rightarrow> p
      | Some versions \<Rightarrow>
          p\<lparr>Extensions := (Extensions p)(extensionId \<mapsto> versions(versionDir \<mapsto> files))\<rparr>)"

text \<open>
  The \<open>try\<close>/\<open>catch\<close> that fills the version directory, which is empty at this point
  (removed when it existed, then created): read the downloaded file, scan, write the
  bytes from the offset on to \<open>extension.zip\<close> in the download directory and unpack
  them; when anything throws, write \<open>manifest.json\<close> from the manifest in memory
  instead. An archive tool that fails is taken to have unpacked nothing.
  The result is how the block ends, the download directory and the version directory.
\<close>

definition extract_archive ::
  "env \<Rightarrow> installer_options \<Rightarrow> string \<Rightarrow> json \<Rightarrow> dir option \<Rightarrow> flow \<times> dir option \<times> dir" where
  "extract_archive e options extensionId manifest dl =
     (case read_file dl (extensionId @ ''.crx'') of
        None \<Rightarrow> (Next, dl, [''manifest.json'' \<mapsto> json_stringify e manifest])
      | Some crxData \<Rightarrow>
          if \<not> truthy_str (downloadDir options) then (Return, dl, Map.empty)
          else
            (let zipData = installer_zip_data crxData;
                 dl' = (case dl of None \<Rightarrow> None
                        | Some files \<Rightarrow> Some (files(''extension.zip'' \<mapsto> zipData)))
             in (case unzip e zipData of
                   None \<Rightarrow> (Next, dl', [''manifest.json'' \<mapsto> json_stringify e manifest])
                 | Some extracted \<Rightarrow> (Next, dl', extracted))))"

text \<open>
  \<open>await this.openVivaldiWithConfigUrl(path.basename(profile), {...})\<close> under the test on the
  configuration; a failure of the launch is caught and logged by the callee.
\<close>

definition relaunch_with_config :: "installer_options \<Rightarrow> string \<Rightarrow> shared \<Rightarrow> shared" where
  "relaunch_with_config options profileName s =
     (case config options of
        None \<Rightarrow> s
      | Some c \<Rightarrow>
          if truthy_str (smartLinkUrl c) \<and> truthy_str (secret c)
          then s\<lparr>launched := launched s @ [(profileName, configUrl c)]\<rparr>
          else s)"

text \<open>
  The body of \<open>for (const profile of profiles)\<close> in \<open>Vivaldi.installExtension\<close>. Everything
  happens under \<open>if (fs.existsSync(preferenceFile))\<close>, and the preferences are parsed
  first.
\<close>

definition Vivaldi_profile ::
  "env \<Rightarrow> installer_options \<Rightarrow> string \<Rightarrow> json \<Rightarrow> profile \<Rightarrow> shared \<Rightarrow> flow \<times> profile \<times> shared" where
  "Vivaldi_profile e options extensionId manifest p s =
     (case preferenceFile p of
        None \<Rightarrow> (Next, p, s)
      | Some preferencesContent \<Rightarrow>
          (case json_parse e preferencesContent of
             None \<Rightarrow> (Throw SyntaxError, p, s)
           | Some preferences \<Rightarrow>
               (let p1 = mkdir_extensionsDir p extensionId
                in (case manifest_versionFormatted manifest of
                      Inl err \<Rightarrow> (Throw err, p1, s)
                    | Inr versionDir \<Rightarrow>
                        (case (version_dir p1 extensionId versionDir,
                               truthy_flag (forceReinstall options)) of
                           (Some existing, False) \<Rightarrow> (Next, p1, s)
                         | _ \<Rightarrow>
                             (case extract_archive e options extensionId manifest (download_dir s) of
                                (Return, dl, files) \<Rightarrow>
                                  (Return, put_version_dir p1 extensionId versionDir files,
                                   s\<lparr>download_dir := dl\<rparr>)
                              | (_, dl, files) \<Rightarrow>
                                  (let p2 = put_version_dir p1 extensionId versionDir files;
                                       s1 = s\<lparr>download_dir := dl\<rparr>
                                   in (case Vivaldi_patch (truthy_flag (pinExtension options))
                                              extensionId manifest versionDir (now e) preferences of
                                         Inl err \<Rightarrow> (Throw err, p2, s1)
                                       | Inr preferences' \<Rightarrow>
                                           (Next,
                                            p2\<lparr>preferenceFile :=
                                                 Some (json_stringify e preferences')\<rparr>,
                                            relaunch_with_config options (basename p) s1)))))))))"

text \<open>
  The body of the loop in \<open>Opera.installExtension\<close>. The directories are made and the
  archive is unpacked first; \<open>if (fs.existsSync(preferenceFile))\<close> comes after.
\<close>

definition Opera_profile ::
  "env \<Rightarrow> installer_options \<Rightarrow> string \<Rightarrow> json \<Rightarrow> profile \<Rightarrow> shared \<Rightarrow> flow \<times> profile \<times> shared" where
  "Opera_profile e options extensionId manifest p s =
     (let p1 = mkdir_extensionsDir p extensionId
      in (case manifest_versionFormatted manifest of
            Inl err \<Rightarrow> (Throw err, p1, s)
          | Inr versionDir \<Rightarrow>
              (case (version_dir p1 extensionId versionDir,
                     truthy_flag (forceReinstall options)) of
                 (Some existing, False) \<Rightarrow> (Next, p1, s)
               | _ \<Rightarrow>
                   (case extract_archive e options extensionId manifest (download_dir s) of
                      (Return, dl, files) \<Rightarrow>
                        (Return, put_version_dir p1 extensionId versionDir files,
                         s\<lparr>download_dir := dl\<rparr>)
                    | (_, dl, files) \<Rightarrow>
                        (let p2 = put_version_dir p1 extensionId versionDir files;
                             s1 = s\<lparr>download_dir := dl\<rparr>
                         in (case preferenceFile p2 of
                               None \<Rightarrow> (Next, p2, s1)
                             | Some preferencesContent \<Rightarrow>
                                 (case json_parse e preferencesContent of
                                    None \<Rightarrow> (Throw SyntaxError, p2, s1)
                                  | Some preferences \<Rightarrow>
                                      (case Opera_patch (truthy_flag (pinExtension options))
                                              extensionId manifest versionDir (now e) preferences of
                                         Inl err \<Rightarrow> (Throw err, p2, s1)
                                       | Inr preferences' \<Rightarrow>
                                           (Next,
                                            p2\<lparr>preferenceFile :=
                                                 Some (json_stringify e preferences')\<rparr>,
                                            relaunch_with_config options (basename p) s1)))))))))"

section \<open>Installing into every profile\<close>

text \<open>
  \<open>for (const profile of profiles) { ... }\<close>: the profiles in order, each with the state
  the ones before left; a body that throws or returns ends the loop, and the profiles
  after it are as they were.
\<close>

fun for_profiles ::
  "(profile \<Rightarrow> shared \<Rightarrow> flow \<times> profile \<times> shared) \<Rightarrow> profile list \<Rightarrow> shared
     \<Rightarrow> flow \<times> profile list \<times> shared" where
  "for_profiles body [] s = (Next, [], s)"
| "for_profiles body (p # ps) s =
     (case body p s of
        (Next, p', s') \<Rightarrow>
          (case for_profiles body ps s' of (fl, ps', s'') \<Rightarrow> (fl, p' # ps', s''))
      | (fl, p', s') \<Rightarrow> (fl, p' # ps, s'))"

text \<open>
  The end of \<open>installExtension\<close> after the loop: a loop that threw rejects (the outer
  \<open>catch\<close> logs and throws again), one that returned resolves at once, and one that ran
  to its end is followed by
  \<open>if (this.options.downloadDir && fs.existsSync(this.options.downloadDir)) fs.rmSync(...)\<close>.
\<close>

definition after_loop ::
  "installer_options \<Rightarrow> chromium \<Rightarrow> flow \<times> profile list \<times> shared \<Rightarrow> outcome \<times> chromium" where
  "after_loop options w r =
     (case r of
        (Throw err, ps, s) \<Rightarrow> (Rejected err, w\<lparr>profile_dirs := ps, shared_state := s\<rparr>)
      | (Return, ps, s) \<Rightarrow> (Resolved, w\<lparr>profile_dirs := ps, shared_state := s\<rparr>)
      | (Next, ps, s) \<Rightarrow>
          (Resolved,
           w\<lparr>profile_dirs := ps,
             shared_state :=
               (if truthy_str (downloadDir options) then s\<lparr>download_dir := None\<rparr> else s)\<rparr>))"

text \<open>
  \<open>installExtensionViaRegistry\<close> of \<open>Vivaldi\<close>: the machine hive first, the user hive when
  that fails.
\<close>

definition installExtensionViaRegistry ::
  "env \<Rightarrow> string \<Rightarrow> chromium \<Rightarrow> (error + unit) \<times> chromium" where
  "installExtensionViaRegistry e extensionId w =
     (if platform e \<noteq> Win32 then (Inl NotWindows, w)
      else if \<not> is_admin e then (Inl AdminRequired, w)
      else if reg_add_hklm e then (Inr (), w\<lparr>registry := registry w @ [''HKLM'']\<rparr>)
      else if reg_add_hkcu e then (Inr (), w\<lparr>registry := registry w @ [''HKCU'']\<rparr>)
      else (Inl RegistryFailed, w))"

text \<open>
  \<open>Vivaldi.installExtension\<close>. On Windows the registry is written and the browser is
  opened on the profile \<open>Default\<close> under the same test on the configuration. Elsewhere:
  the profiles (\<open>getProfiles\<close> is the profile locator: it throws, or the run goes over
  \<open>profile_dirs\<close>), the download, the manifest, the loop, the cleanup.
\<close>

definition Vivaldi_installExtension ::
  "env \<Rightarrow> installer_options \<Rightarrow> string \<Rightarrow> chromium \<Rightarrow> outcome \<times> chromium" where
  "Vivaldi_installExtension e options extensionId w =
     (if platform e = Win32 then
        (case installExtensionViaRegistry e extensionId w of
           (Inl err, w1) \<Rightarrow> (Rejected err, w1)
         | (Inr u, w1) \<Rightarrow>
             (Resolved,
              w1\<lparr>shared_state := relaunch_with_config options ''Default'' (shared_state w1)\<rparr>))
      else
        (case getProfiles_error e of
           Some err \<Rightarrow> (Rejected err, w)
         | None \<Rightarrow>
             (case downloadExtension e options extensionId (download_dir (shared_state w)) of
                (Inl err, dl) \<Rightarrow>
                  (Rejected (DownloadFailed err),
                   w\<lparr>shared_state := (shared_state w)\<lparr>download_dir := dl\<rparr>\<rparr>)
              | (Inr u, dl) \<Rightarrow>
                  (let s = (shared_state w)\<lparr>download_dir := dl\<rparr>;
                       manifest = Vivaldi_manifest e (read_file dl (extensionId @ ''.crx''))
                   in after_loop options w
                        (for_profiles (Vivaldi_profile e options extensionId manifest)
                           (profile_dirs w) s)))))"

text \<open>\<open>Opera.installExtension\<close>: the same run on every platform, with its own loop body.\<close>

definition Opera_installExtension ::
  "env \<Rightarrow> installer_options \<Rightarrow> string \<Rightarrow> chromium \<Rightarrow> outcome \<times> chromium" where
  "Opera_installExtension e options extensionId w =
     (case getProfiles_error e of
        Some err \<Rightarrow> (Rejected err, w)
      | None \<Rightarrow>
          (case downloadExtension e options extensionId (download_dir (shared_state w)) of
             (Inl err, dl) \<Rightarrow>
               (Rejected (DownloadFailed err),
                w\<lparr>shared_state := (shared_state w)\<lparr>download_dir := dl\<rparr>\<rparr>)
           | (Inr u, dl) \<Rightarrow>
               (let s = (shared_state w)\<lparr>download_dir := dl\<rparr>;
                    manifest = Opera_manifest e (read_file dl (extensionId @ ''.crx''))
                in after_loop options w
                     (for_profiles (Opera_profile e options extensionId manifest)
                        (profile_dirs w) s))))"

text \<open>
  The constructors: the options with their defaults, and the download directory
  created when it does not exist.
\<close>

definition mkdir_downloadDir :: "installer_options \<Rightarrow> shared \<Rightarrow> shared" where
  "mkdir_downloadDir options s =
     (if truthy_str (downloadDir options)
      then (case download_dir s of None \<Rightarrow> s\<lparr>download_dir := Some Map.empty\<rparr> | Some d \<Rightarrow> s)
      else s)"

definition new_Vivaldi :: "env \<Rightarrow> installer_options \<Rightarrow> chromium \<Rightarrow> installer_options \<times> chromium" where
  "new_Vivaldi e options w =
     (let this_options = Vivaldi_options (tmpdir e) options
      in (this_options, w\<lparr>shared_state := mkdir_downloadDir this_options (shared_state w)\<rparr>))"

definition new_Opera :: "env \<Rightarrow> installer_options \<Rightarrow> chromium \<Rightarrow> installer_options \<times> chromium" where
  "new_Opera e options w =
     (let this_options = Opera_options (tmpdir e) options
      in (this_options, w\<lparr>shared_state := mkdir_downloadDir this_options (shared_state w)\<rparr>))"

section \<open>The two Chromium-family installers side by side\<close>

text \<open>
  Of the Chromium-family installers, \<open>Vivaldi\<close> and \<open>Opera\<close> are among the sources. A
  statement about both is made over this choice.
\<close>

datatype chromium_browser = Vivaldi | Opera

definition profile_body ::
  "chromium_browser \<Rightarrow> env \<Rightarrow> installer_options \<Rightarrow> string \<Rightarrow> json \<Rightarrow> profile \<Rightarrow> shared
     \<Rightarrow> flow \<times> profile \<times> shared" where
  "profile_body b = (case b of Vivaldi \<Rightarrow> Vivaldi_profile | Opera \<Rightarrow> Opera_profile)"


definition patch_preferences ::
  "chromium_browser \<Rightarrow> bool \<Rightarrow> string \<Rightarrow> json \<Rightarrow> string \<Rightarrow> nat \<Rightarrow> json \<Rightarrow> error + json" where
  "patch_preferences b = (case b of Vivaldi \<Rightarrow> Vivaldi_patch | Opera \<Rightarrow> Opera_patch)"

definition installExtension ::
  "chromium_browser \<Rightarrow> env \<Rightarrow> installer_options \<Rightarrow> string \<Rightarrow> chromium \<Rightarrow> outcome \<times> chromium" where
  "installExtension b =
     (case b of Vivaldi \<Rightarrow> Vivaldi_installExtension | Opera \<Rightarrow> Opera_installExtension)"

section \<open>Firefox\<close>

text \<open>
  A Firefox profile as \<open>getFirefoxProfiles\<close> reads it from \<open>profiles.ini\<close>, with what the
  installer touches in its directory: the \<open>extensions\<close> directory (\<open>None\<close> when it does
  not exist) and \<open>extensions.json\<close>.
\<close>

record firefox_profile =
  ff_name :: string
  ff_path :: string
  ff_default :: bool
  ff_extensions :: "dir option"
  extensions_json :: "buffer option"

text \<open>
  \<open>ff_profiles\<close> are the profiles that \<open>profiles.ini\<close> of the platform lists, \<open>ff_fallback\<close>
  the first directory under \<open><installDir>/Profiles\<close> that the constructor falls back to
  on Windows.
\<close>

record firefox =
  ff_profiles :: "firefox_profile list"
  ff_fallback :: "firefox_profile option"
  ff_download_dir :: "dir option"
  ff_launched :: "(string \<times> string) list"

record firefox_installer =
  ff_options :: installer_options
  profileDir :: string

text \<open>\<open>profiles.find((p) => p.default) ?? profiles[0]\<close>\<close>

definition default_profile :: "firefox_profile list \<Rightarrow> firefox_profile option" where
  "default_profile ps =
     (case filter ff_default ps of
        d # ds \<Rightarrow> Some d
      | [] \<Rightarrow> (case ps of q # qs \<Rightarrow> Some q | [] \<Rightarrow> None))"

text \<open>
  \<open>getFirefoxProfiles\<close> looks for \<open>profiles.ini\<close> under \<open>getDefaultFirefoxProfilesDir()\<close>, which
  throws on a platform other than \<open>win32\<close>, \<open>darwin\<close> and \<open>linux\<close>; its \<open>catch\<close> logs and
  returns the empty list.
\<close>

definition getFirefoxProfiles :: "env \<Rightarrow> firefox \<Rightarrow> firefox_profile list" where
  "getFirefoxProfiles e w = (if platform e = OtherPlatform then [] else ff_profiles w)"

text \<open>
  \<open>findProfileDirectory\<close>: the default profile, or the first one; without profiles the
  fallback on Windows, and \<open>No Firefox profile found\<close> elsewhere.
\<close>

definition findProfileDirectory :: "env \<Rightarrow> firefox \<Rightarrow> error + string" where
  "findProfileDirectory e w =
     (case getFirefoxProfiles e w of
        [] \<Rightarrow>
          (if platform e = Win32
           then (case ff_fallback w of Some q \<Rightarrow> Inr (ff_path q) | None \<Rightarrow> Inl ProfileError)
           else Inl ProfileError)
      | q # qs \<Rightarrow>
          (case default_profile (q # qs) of
             Some d \<Rightarrow> Inr (ff_path d)
           | None \<Rightarrow> Inl ProfileError))"

text \<open>\<open>mkdirSync(join(dir, "extensions"), { recursive: true })\<close> in the profile at a path.\<close>

definition mkdir_extensions :: "firefox_profile \<Rightarrow> firefox_profile" where
  "mkdir_extensions q =
     (case ff_extensions q of None \<Rightarrow> q\<lparr>ff_extensions := Some Map.empty\<rparr> | Some d \<Rightarrow> q)"

definition at_path :: "string \<Rightarrow> (firefox_profile \<Rightarrow> firefox_profile) \<Rightarrow> firefox \<Rightarrow> firefox" where
  "at_path dir f w =
     w\<lparr>ff_profiles := map (\<lambda>q. if ff_path q = dir then f q else q) (ff_profiles w),
       ff_fallback := map_option (\<lambda>q. if ff_path q = dir then f q else q) (ff_fallback w)\<rparr>"

definition profile_at :: "string \<Rightarrow> firefox \<Rightarrow> firefox_profile option" where
  "profile_at dir w =
     (case filter (\<lambda>q. ff_path q = dir) (ff_profiles w) of
        q # qs \<Rightarrow> Some q
      | [] \<Rightarrow> (case ff_fallback w of
                 Some q \<Rightarrow> if ff_path q = dir then Some q else None
               | None \<Rightarrow> None))"

text \<open>
  The constructor of \<open>FirefoxExtensionInstaller\<close>:
  \<open>this.options.installDir ??= this.getDefaultFirefoxProfilesDir()\<close> asks for the default
  directory only when no \<open>installDir\<close> was given, and that call throws on an unsupported
  platform; then the download directory is created, the profile directory is found (or
  the constructor throws), and its \<open>extensions\<close> directory is created.
\<close>

definition new_Firefox ::
  "env \<Rightarrow> installer_options \<Rightarrow> firefox \<Rightarrow> (error + firefox_installer) \<times> firefox" where
  "new_Firefox e options w =
     (if installDir options = None \<and> platform e = OtherPlatform
      then (Inl UnsupportedPlatform, w)
      else
        (let this_options = Firefox_options (tmpdir e) (firefox_profiles_dir e) options;
             w1 = (case ff_download_dir w of
                     None \<Rightarrow> if truthy_str (downloadDir this_options)
                             then w\<lparr>ff_download_dir := Some Map.empty\<rparr> else w
                   | Some d \<Rightarrow> w)
         in (case findProfileDirectory e w1 of
               Inl err \<Rightarrow> (Inl err, w1)
             | Inr dir \<Rightarrow>
                 if dir = [] then (Inl ProfileError, w1)
                 else (Inr \<lparr>ff_options = this_options, profileDir = dir\<rparr>,
                       at_path dir mkdir_extensions w1))))"

text \<open>String helpers of the Firefox installer.\<close>

definition last_part :: "string \<Rightarrow> string" where
  "last_part s = rev (takeWhile (\<lambda>c. c \<noteq> CHR ''/'') (rev s))"

fun remove_first :: "string \<Rightarrow> string \<Rightarrow> string" where
  "remove_first pat [] = []"
| "remove_first pat (c # cs) =
     (if prefix pat (c # cs) then drop (length pat) (c # cs) else c # remove_first pat cs)"

text \<open>
  \<open>let extensionId = extensionIdOrUrl; if (extensionIdOrUrl.includes("/")) { ... lastPart ...
  if (lastPart.includes("@") && lastPart.endsWith(".xpi")) extensionId = lastPart.replace(".xpi", "") }\<close>
\<close>

definition installed_id :: "string \<Rightarrow> string" where
  "installed_id extensionIdOrUrl =
     (if CHR ''/'' \<in> set extensionIdOrUrl
      then (let lastPart = last_part extensionIdOrUrl
            in if CHR ''@'' \<in> set lastPart \<and> suffix ''.xpi'' lastPart
               then remove_first ''.xpi'' lastPart else extensionIdOrUrl)
      else extensionIdOrUrl)"

text \<open>\<open>getExtensionFilename\<close>\<close>

definition getExtensionFilename :: "env \<Rightarrow> string \<Rightarrow> string" where
  "getExtensionFilename e extensionId =
     (if prefix ''http'' extensionId
      then (let lastPart = last_part extensionId
            in if lastPart \<noteq> [] \<and> CHR ''?'' \<notin> set lastPart
               then (if suffix ''.xpi'' lastPart
                     then take (length lastPart - 4) lastPart else lastPart)
               else md5 e extensionId)
      else extensionId)"

text \<open>\<open>isExtensionInstalled\<close>: \<open><id>.xpi\<close> exists in \<open>this.extensionsDir\<close>.\<close>

definition isExtensionInstalled :: "firefox_installer \<Rightarrow> string \<Rightarrow> firefox \<Rightarrow> bool" where
  "isExtensionInstalled this extensionId w =
     (case profile_at (profileDir this) w of
        None \<Rightarrow> False
      | Some q \<Rightarrow> read_file (ff_extensions q) (extensionId @ ''.xpi'') \<noteq> None)"

text \<open>
  \<open>downloadExtension\<close> of the Firefox installer: rejects without a download directory,
  opens the file for writing (the directory is not created here) and fetches.
\<close>

definition Firefox_downloadExtension ::
  "env \<Rightarrow> firefox_installer \<Rightarrow> string \<Rightarrow> firefox \<Rightarrow> (error + string) \<times> firefox" where
  "Firefox_downloadExtension e this extensionId w =
     (if \<not> truthy_str (downloadDir (ff_options this)) then (Inl DownloadDirUndefined, w)
      else
        (let xpiFile = getExtensionFilename e extensionId @ ''.xpi''
         in (case ff_download_dir w of
               None \<Rightarrow>
                 (case https_get e extensionId of
                    Body b \<Rightarrow> (Inl FileNotFound, w)
                  | BadStatus n \<Rightarrow> (Inl (HttpStatus n), w)
                  | NetworkError \<Rightarrow> (Inl TransportError, w))
             | Some files \<Rightarrow>
                 (case https_get e extensionId of
                    Body b \<Rightarrow> (Inr xpiFile, w\<lparr>ff_download_dir := Some (files(xpiFile \<mapsto> b))\<rparr>)
                  | BadStatus n \<Rightarrow>
                      (Inl (HttpStatus n), w\<lparr>ff_download_dir := Some (files(xpiFile \<mapsto> []))\<rparr>)
                  | NetworkError \<Rightarrow>
                      (Inl TransportError, w\<lparr>ff_download_dir := Some (files(xpiFile := None))\<rparr>)))))"

text \<open>
  \<open>openFirefoxWithConfigUrl(profile.name, this.options.config)\<close>: the only test is
  \<open>if (!configParams) return\<close>; a failure of the launch is caught and logged.
\<close>

definition openFirefoxWithConfigUrl :: "string \<Rightarrow> config option \<Rightarrow> firefox \<Rightarrow> firefox" where
  "openFirefoxWithConfigUrl profileName configParams w =
     (case configParams of
        None \<Rightarrow> w
      | Some c \<Rightarrow> w\<lparr>ff_launched := ff_launched w @ [(profileName, configUrl c)]\<rparr>)"

text \<open>\<open>a?.k\<close>: \<open>undefined\<close> when \<open>a\<close> is \<open>undefined\<close> or \<open>null\<close>.\<close>

definition js_get_chain :: "json option \<Rightarrow> string \<Rightarrow> json option" where
  "js_get_chain a k =
     (case a of
        None \<Rightarrow> None
      | Some JNull \<Rightarrow> None
      | Some v \<Rightarrow> (case js_get v k of Inr x \<Rightarrow> x | Inl err \<Rightarrow> None))"

text \<open>
  \<open>manifest.browser_specific_settings?.gecko?.id || manifest.applications?.gecko?.id\<close>; the
  two reads from the manifest itself throw when it is \<open>null\<close>.
\<close>

definition gecko_id :: "json \<Rightarrow> error + json option" where
  "gecko_id manifest =
     andThen (js_get manifest ''browser_specific_settings'') (\<lambda>bss.
       let first = js_get_chain (js_get_chain bss ''gecko'') ''id''
       in if truthy_opt first then Inr first
          else andThen (js_get manifest ''applications'') (\<lambda>apps.
                 Inr (js_get_chain (js_get_chain apps ''gecko'') ''id'')))"

text \<open>
  A value inside a template literal. The identifiers and names read from a manifest
  are strings; the other cases are what \<open>String(v)\<close> gives for them.
\<close>

fun join_commas :: "string list \<Rightarrow> string" where
  "join_commas [] = []"
| "join_commas [x] = x"
| "join_commas (x # y # ys) = x @ CHR '','' # join_commas (y # ys)"

fun template_json :: "json \<Rightarrow> string" where
  "template_json JNull = ''null''"
| "template_json (JBool b) = (if b then ''true'' else ''false'')"
| "template_json (JNum n) = (if n < 0 then CHR ''-'' # decimal (nat (- n)) else decimal (nat n))"
| "template_json (JStr s) = s"
| "template_json (JArr xs) =
     join_commas (map (\<lambda>x. if x = JNull then [] else template_json x) xs)"
| "template_json (JObj kvs) = ''[object Object]''"

text \<open>\<open>v ?? dflt\<close> on a value read from the manifest.\<close>

definition nullish_default :: "json option \<Rightarrow> json \<Rightarrow> json" where
  "nullish_default v dflt = (case v of None \<Rightarrow> dflt | Some JNull \<Rightarrow> dflt | Some x \<Rightarrow> x)"

text \<open>\<open>a === b\<close> between a value kept in \<open>extensions.json\<close> and an identifier: primitives
  by value; an object or an array is never identical to another one.\<close>

fun strict_equal :: "json \<Rightarrow> json \<Rightarrow> bool" where
  "strict_equal JNull JNull = True"
| "strict_equal (JBool a) (JBool b) = (a = b)"
| "strict_equal (JNum a) (JNum b) = (a = b)"
| "strict_equal (JStr a) (JStr b) = (a = b)"
| "strict_equal a b = False"

text \<open>\<open>addons.filter((addon) => addon.id !== extensionInfo.id)\<close>; the callback throws on
  an element that is \<open>null\<close>.\<close>

fun filter_addons :: "json \<Rightarrow> json list \<Rightarrow> error + json list" where
  "filter_addons ident [] = Inr []"
| "filter_addons ident (addon # addons) =
     andThen (js_get addon ''id'') (\<lambda>v.
     andThen (filter_addons ident addons) (\<lambda>kept.
       Inr (case v of
              None \<Rightarrow> addon # kept
            | Some x \<Rightarrow> if strict_equal x ident then kept else addon # kept)))"

text \<open>The entry \<open>updateExtensionsJson\<close> appends, field by field as in the source.\<close>

definition newExtension ::
  "env \<Rightarrow> json \<Rightarrow> json \<Rightarrow> json \<Rightarrow> json \<Rightarrow> string \<Rightarrow> json" where
  "newExtension e ident name description version targetPath =
     JObj
      [(''id'', ident),
       (''syncGUID'', JStr (md5 e (template_json ident @ ''-'' @ decimal (now e)))),
       (''location'', JStr ''app-profile''),
       (''version'', version),
       (''type'', JStr ''extension''),
       (''internalName'', JNull),
       (''updateURL'', JNull),
       (''updateKey'', JNull),
       (''optionsURL'', JNull),
       (''optionsType'', JNull),
       (''aboutURL'', JNull),
       (''defaultLocale'', JObj
          [(''name'', name), (''description'', description),
           (''creator'', JNull), (''homepageURL'', JNull)]),
       (''visible'', JBool True),
       (''active'', JBool True),
       (''userDisabled'', JBool False),
       (''appDisabled'', JBool False),
       (''embedderDisabled'', JBool False),
       (''installDate'', JNum (int (mtime e))),
       (''updateDate'', JNum (int (mtime e))),
       (''applyBackgroundUpdates'', JNum 1),
       (''path'', JStr targetPath),
       (''skinnable'', JBool False),
       (''sourceURI'', JNull),
       (''releaseNotesURI'', JNull),
       (''softDisabled'', JBool False),
       (''foreignInstall'', JBool False),
       (''strictCompatibility'', JBool False),
       (''locales'', JArr []),
       (''targetApplications'', JArr
          [JObj [(''id'', JStr ''{ec8030f7-c20a-464f-9b0e-13a3a9e97384}''),
                 (''minVersion'', JStr ''42.0''),
                 (''maxVersion'', JStr ''*'')]]),
       (''targetPlatforms'', JArr []),
       (''multiprocessCompatible'', JBool True),
       (''signedState'', JNum 0),
       (''seen'', JBool True),
       (''dependencies'', JArr []),
       (''incognito'', JStr ''spanning''),
       (''userPermissions'', JNull),
       (''icons'', JObj []),
       (''iconURL'', JNull),
       (''blocklistState'', JNum 0),
       (''blocklistURL'', JNull),
       (''startupData'', JNull),
       (''hidden'', JBool False),
       (''installTelemetryInfo'', JObj
          [(''source'', JStr ''file''), (''sourceURL'', JNull), (''method'', JStr ''install'')]),
       (''recommendationState'', JNull),
       (''rootURI'', JStr (''jar:file://'' @ targetPath @ ''!/'')),
       (''temporarilyInstalled'', JBool False)]"

text \<open>
  The \<open>try\<close> block of \<open>updateExtensionsJson\<close> on the data read: drop the entries with this
  identifier (or start an empty list), append the new entry.
\<close>

definition update_addons :: "json \<Rightarrow> json \<Rightarrow> json \<Rightarrow> error + json" where
  "update_addons extensionsData ident entry =
     andThen (js_get extensionsData ''addons'') (\<lambda>addons.
     andThen (if truthy_opt addons
              then (case addons of
                      Some (JArr xs) \<Rightarrow> filter_addons ident xs
                    | _ \<Rightarrow> Inl TypeError)
              else Inr []) (\<lambda>kept.
     andThen (js_set extensionsData ''addons'' (JArr kept)) (\<lambda>data1.
       js_set data1 ''addons'' (JArr (kept @ [entry])))))"

text \<open>
  \<open>updateExtensionsJson\<close>: a file that does not parse is replaced by \<open>{ addons: [] }\<close>; any
  error is caught and logged, and the file is then left as it was.
\<close>

definition updateExtensionsJson ::
  "env \<Rightarrow> json \<Rightarrow> json \<Rightarrow> firefox_profile \<Rightarrow> firefox_profile" where
  "updateExtensionsJson e ident entry q =
     (let extensionsData =
            (case extensions_json q of
               None \<Rightarrow> JObj [(''addons'', JArr [])]
             | Some content \<Rightarrow>
                 (case json_parse e content of
                    None \<Rightarrow> JObj [(''addons'', JArr [])]
                  | Some parsed \<Rightarrow> parsed))
      in (case update_addons extensionsData ident entry of
            Inl err \<Rightarrow> q
          | Inr data' \<Rightarrow> q\<lparr>extensions_json := Some (json_stringify e data')\<rparr>))"

text \<open>
  The body of the loop in \<open>installXpi\<close> for one profile: the \<open>extensions\<close> directory, the
  XPI file, \<open>extensions.json\<close>, and the browser opened on the profile.
\<close>

definition installXpi_profile ::
  "env \<Rightarrow> firefox_installer \<Rightarrow> json \<Rightarrow> json \<Rightarrow> buffer
     \<Rightarrow> firefox_profile \<Rightarrow> (string \<times> string) list
     \<Rightarrow> firefox_profile \<times> (string \<times> string) list" where
  "installXpi_profile e this manifest ident zipBuffer q opened =
     (let xpiName = template_json ident @ ''.xpi'';
          targetPath = ff_path q @ ''/extensions/'' @ xpiName;
          q1 = mkdir_extensions q;
          q2 = q1\<lparr>ff_extensions :=
                    map_option (\<lambda>files. files(xpiName \<mapsto> zipBuffer)) (ff_extensions q1)\<rparr>;
          entry = newExtension e ident
                    (nullish_default (js_get_chain (Some manifest) ''name'')
                       (JStr ''Unknown Extension''))
                    (nullish_default (js_get_chain (Some manifest) ''description'') (JStr []))
                    (nullish_default (js_get_chain (Some manifest) ''version'') (JStr ''0.0.0''))
                    targetPath;
          q3 = updateExtensionsJson e ident entry q2
      in (q3, (case config (ff_options this) of
                 None \<Rightarrow> opened
               | Some c \<Rightarrow> opened @ [(ff_name q, configUrl c)])))"

text \<open>
  \<open>for (const profile of this.getFirefoxProfiles().filter((profile) =>
     !this.options.profiles || this.options.profiles.includes(profile.name)))\<close>
\<close>

fun installXpi_profiles ::
  "env \<Rightarrow> firefox_installer \<Rightarrow> json \<Rightarrow> json \<Rightarrow> buffer
     \<Rightarrow> firefox_profile list \<Rightarrow> (string \<times> string) list
     \<Rightarrow> firefox_profile list \<times> (string \<times> string) list" where
  "installXpi_profiles e this manifest ident zipBuffer [] opened = ([], opened)"
| "installXpi_profiles e this manifest ident zipBuffer (q # qs) opened =
     (if (case profiles (ff_options this) of
            None \<Rightarrow> True
          | Some names \<Rightarrow> ff_name q \<in> set names)
      then (case installXpi_profile e this manifest ident zipBuffer q opened of
              (q', opened') \<Rightarrow>
                (case installXpi_profiles e this manifest ident zipBuffer qs opened' of
                   (qs', opened'') \<Rightarrow> (q' # qs', opened'')))
      else (case installXpi_profiles e this manifest ident zipBuffer qs opened of
              (qs', opened') \<Rightarrow> (q # qs', opened')))"

text \<open>
  \<open>installXpi\<close>: open the archive, read and parse \<open>manifest.json\<close>, take the identifier
  from it (or a random one), install into the profiles. Every failure before the loop
  is thrown again by its \<open>catch\<close>.
\<close>

definition installXpi ::
  "env \<Rightarrow> firefox_installer \<Rightarrow> string \<Rightarrow> firefox \<Rightarrow> (error + unit) \<times> firefox" where
  "installXpi e this xpiFile w =
     (case read_file (ff_download_dir w) xpiFile of
        None \<Rightarrow> (Inl InvalidArchive, w)
      | Some xpi \<Rightarrow>
          (case adm_zip e xpi of
             None \<Rightarrow> (Inl InvalidArchive, w)
           | Some entries \<Rightarrow>
               (case entries ''manifest.json'' of
                  None \<Rightarrow> (Inl ManifestNotFound, w)
                | Some manifestContent \<Rightarrow>
                    (case json_parse e manifestContent of
                       None \<Rightarrow> (Inl SyntaxError, w)
                     | Some manifest \<Rightarrow>
                         (case gecko_id manifest of
                            Inl err \<Rightarrow> (Inl err, w)
                          | Inr found \<Rightarrow>
                              (let ident =
                                     (case found of
                                        Some v \<Rightarrow>
                                          if truthy v then v
                                          else JStr (''random-'' @ md5 e (decimal (now e))
                                                       @ ''@temporary.addon'')
                                      | None \<Rightarrow>
                                          JStr (''random-'' @ md5 e (decimal (now e))
                                                  @ ''@temporary.addon''))
                               in (case installXpi_profiles e this manifest ident
                                          (adm_zip_toBuffer e xpi) (getFirefoxProfiles e w)
                                          (ff_launched w) of
                                     (qs, opened) \<Rightarrow>
                                       (Inr (),
                                        w\<lparr>ff_profiles :=
                                            (if platform e = OtherPlatform then ff_profiles w
                                             else qs),
                                          ff_launched := opened\<rparr>))))))))"

text \<open>
  \<open>FirefoxExtensionInstaller.installExtension\<close>: \<open>true\<close> when the extension is there already
  and no reinstall is forced; otherwise download, install, remove the downloaded file
  and return \<open>true\<close>. The \<open>catch\<close> around all of it logs and returns \<open>false\<close>.
\<close>

definition Firefox_installExtension ::
  "env \<Rightarrow> firefox_installer \<Rightarrow> string \<Rightarrow> firefox \<Rightarrow> bool \<times> firefox" where
  "Firefox_installExtension e this extensionIdOrUrl w =
     (if isExtensionInstalled this (installed_id extensionIdOrUrl) w
         \<and> \<not> truthy_flag (forceReinstall (ff_options this))
      then (True, w)
      else
        (case Firefox_downloadExtension e this extensionIdOrUrl w of
           (Inl err, w1) \<Rightarrow> (False, w1)
         | (Inr xpiFile, w1) \<Rightarrow>
             (case installXpi e this xpiFile w1 of
                (Inl err, w2) \<Rightarrow> (False, w2)
              | (Inr u, w2) \<Rightarrow>
                  (True,
                   w2\<lparr>ff_download_dir :=
                        map_option (\<lambda>files. files(xpiFile := None)) (ff_download_dir w2)\<rparr>))))"

text \<open>
  \<open>installExtensions\<close>: one call of \<open>installExtension\<close> per identifier, the results
  collected by identifier and returned after the summary is logged. Nothing is thrown.
\<close>

fun installExtensions ::
  "env \<Rightarrow> firefox_installer \<Rightarrow> string list \<Rightarrow> firefox \<Rightarrow> (string \<times> bool) list \<times> firefox" where
  "installExtensions e this [] w = ([], w)"
| "installExtensions e this (extensionId # ids) w =
     (case Firefox_installExtension e this extensionId w of
        (ok, w1) \<Rightarrow>
          (case installExtensions e this ids w1 of
             (results, w2) \<Rightarrow> (AList.update extensionId ok results, w2)))"

section \<open>The command and the command line\<close>

text \<open>The state of the three browsers whose installers are among the sources.\<close>

record system =
  vivaldi :: chromium
  opera :: chromium
  firefox :: firefox

text \<open>\<open>browser.toLowerCase()\<close> on ASCII letters.\<close>

definition toLowerCase :: "string \<Rightarrow> string" where
  "toLowerCase s =
     map (\<lambda>c. if 65 \<le> (of_char c :: nat) \<and> (of_char c :: nat) \<le> 90
               then char_of ((of_char c :: nat) + 32) else c) s"

text \<open>
  \<open>installExtensionCommand\<close>: the options, the installer chosen by the browser name, the
  installation; whatever is thrown is logged and rejects the promise. The classes
  \<open>Chrome\<close>, \<open>Edge\<close> and \<open>Brave\<close> are imported from files that are not among the sources:
  how their installation ends is the parameter \<open>absent_installer\<close>. The result of
  \<open>installExtensions\<close> of the Firefox installer is not looked at.
\<close>

definition installExtensionCommand :: "env \<Rightarrow> argv \<Rightarrow> system \<Rightarrow> outcome \<times> system" where
  "installExtensionCommand e a sys =
     (let browser = toLowerCase (if truthy_str (argv_browser a) then the (argv_browser a)
                                 else ''chrome'');
          options = installerOptions a;
          chromeExtensionId = ''hfkipjpbjnpdpaofpilegpmbbfhmoceb''
      in if browser = ''chrome'' \<or> browser = ''edge'' \<or> browser = ''brave''
         then (absent_installer e browser, sys)
         else if browser = ''opera''
         then (case new_Opera e options (opera sys) of
                 (this_options, w) \<Rightarrow>
                   (case Opera_installExtension e this_options chromeExtensionId w of
                      (r, w') \<Rightarrow> (r, sys\<lparr>opera := w'\<rparr>)))
         else if browser = ''firefox''
         then (case new_Firefox e options (firefox sys) of
                 (Inl err, w) \<Rightarrow> (Rejected err, sys\<lparr>firefox := w\<rparr>)
               | (Inr this, w) \<Rightarrow>
                   (case installExtensions e this [''smartlink-extension''] w of
                      (results, w') \<Rightarrow> (Resolved, sys\<lparr>firefox := w'\<rparr>)))
         else if browser = ''vivaldi''
         then (case new_Vivaldi e options (vivaldi sys) of
                 (this_options, w) \<Rightarrow>
                   (case Vivaldi_installExtension e this_options chromeExtensionId w of
                      (r, w') \<Rightarrow> (r, sys\<lparr>vivaldi := w'\<rparr>)))
         else (Rejected UnsupportedBrowser, sys))"

text \<open>
  The command line: the handler of \<open>install-extension\<close> awaits the command, and
  \<open>.fail((msg, err, yargs) => { ...; process.exit(1) })\<close> takes a rejected handler as well
  as arguments that \<open>yargs\<close> refuses. A process that is not ended by \<open>process.exit(1)\<close>
  exits with code 0.
\<close>

datatype invocation = Refused string | InstallExtension argv

definition cli :: "env \<Rightarrow> invocation \<Rightarrow> system \<Rightarrow> nat \<times> system" where
  "cli e request sys =
     (case request of
        Refused msg \<Rightarrow> (1, sys)
      | InstallExtension a \<Rightarrow>
          (case installExtensionCommand e a sys of
             (Rejected err, sys') \<Rightarrow> (1, sys')
           | (Resolved, sys') \<Rightarrow> (0, sys')))"

section \<open>A concrete environment\<close>

text \<open>
  An environment and states for the examples: a Linux machine, a serialiser that
  prints a value on one line, a parser that knows the documents of the examples, an
  archive tool that knows one archive, and a network that delivers a CRX file made of
  a header of eight bytes followed by that archive (and, for the Firefox add-on, the
  archive itself).
\<close>

definition quoted :: "string \<Rightarrow> string" where
  "quoted s = CHR 0x22 # s @ [CHR 0x22]"

primrec compact_json :: "json \<Rightarrow> string" where
  "compact_json JNull = ''null''"
| "compact_json (JBool b) = (if b then ''true'' else ''false'')"
| "compact_json (JNum n) = (if n < 0 then CHR ''-'' # decimal (nat (- n)) else decimal (nat n))"
| "compact_json (JStr s) = quoted s"
| "compact_json (JArr xs) = ''['' @ join_commas (map compact_json xs) @ '']''"
| "compact_json (JObj kvs) =
     ''{'' @ join_commas (map (\<lambda>kv. quoted (fst kv) @ '':'' @ snd kv)
                            (map (map_prod id compact_json) kvs)) @ ''}''"

definition example_stringify :: "json \<Rightarrow> buffer" where
  "example_stringify j = map of_char (compact_json j)"

text \<open>The texts \<open>{}\<close>, \<open>{"version":"1.0.0"}\<close>, \<open>{"extensions":{"opsettings":{}}}\<close> and \<open>{"a":\<close>.\<close>

definition empty_object_text :: buffer where
  "empty_object_text = [0x7B, 0x7D]"

definition manifest_text :: buffer where
  "manifest_text =
     [0x7B, 0x22, 0x76, 0x65, 0x72, 0x73, 0x69, 0x6F, 0x6E, 0x22, 0x3A,
      0x22, 0x31, 0x2E, 0x30, 0x2E, 0x30, 0x22, 0x7D]"

definition opsettings_text :: buffer where
  "opsettings_text =
     [0x7B, 0x22, 0x65, 0x78, 0x74, 0x65, 0x6E, 0x73, 0x69, 0x6F, 0x6E, 0x73, 0x22, 0x3A,
      0x7B, 0x22, 0x6F, 0x70, 0x73, 0x65, 0x74, 0x74, 0x69, 0x6E, 0x67, 0x73, 0x22, 0x3A,
      0x7B, 0x7D, 0x7D, 0x7D]"

definition malformed_text :: buffer where
  "malformed_text = [0x7B, 0x22, 0x61, 0x22, 0x3A]"

definition example_manifest :: json where
  "example_manifest = JObj [(''version'', JStr ''1.0.0'')]"

text \<open>
  The text
  \<open>{"homepage":"https://example.org","extensions":{"settings":{"other":{}},"known_enabled":["other"]}}\<close>
  and its value.
\<close>

definition busy_text :: buffer where
  "busy_text =
     [0x7B, 0x22, 0x68, 0x6F, 0x6D, 0x65, 0x70, 0x61, 0x67, 0x65, 0x22, 0x3A,
      0x22, 0x68, 0x74, 0x74, 0x70, 0x73, 0x3A, 0x2F, 0x2F, 0x65, 0x78, 0x61,
      0x6D, 0x70, 0x6C, 0x65, 0x2E, 0x6F, 0x72, 0x67, 0x22, 0x2C, 0x22, 0x65,
      0x78, 0x74, 0x65, 0x6E, 0x73, 0x69, 0x6F, 0x6E, 0x73, 0x22, 0x3A, 0x7B,
      0x22, 0x73, 0x65, 0x74, 0x74, 0x69, 0x6E, 0x67, 0x73, 0x22, 0x3A, 0x7B,
      0x22, 0x6F, 0x74, 0x68, 0x65, 0x72, 0x22, 0x3A, 0x7B, 0x7D, 0x7D, 0x2C,
      0x22, 0x6B, 0x6E, 0x6F, 0x77, 0x6E, 0x5F, 0x65, 0x6E, 0x61, 0x62, 0x6C,
      0x65, 0x64, 0x22, 0x3A, 0x5B, 0x22, 0x6F, 0x74, 0x68, 0x65, 0x72, 0x22,
      0x5D, 0x7D, 0x7D]"

definition busy_preferences :: json where
  "busy_preferences =
     JObj [(''homepage'', JStr ''https://example.org''),
           (''extensions'',
              JObj [(''settings'', JObj [(''other'', JObj [])]),
                    (''known_enabled'', JArr [JStr ''other''])])]"

definition example_parse :: "buffer \<Rightarrow> json option" where
  "example_parse text =
     (if text = empty_object_text then Some (JObj [])
      else if text = manifest_text then Some example_manifest
      else if text = opsettings_text
      then Some (JObj [(''extensions'', JObj [(''opsettings'', JObj [])])])
      else if text = busy_text then Some busy_preferences
      else None)"

definition example_zip :: buffer where
  "example_zip = [0x50, 0x4B, 0x03, 0x04, 0x14, 0x00, 0x00, 0x00]"

definition example_crx :: buffer where
  "example_crx = [0x43, 0x72, 0x32, 0x34, 0x03, 0x00, 0x00, 0x00] @ example_zip"

definition example_files :: dir where
  "example_files = [''manifest.json'' \<mapsto> manifest_text, ''background.js'' \<mapsto> [0x2F, 0x2F]]"

definition example_unzip :: "buffer \<Rightarrow> dir option" where
  "example_unzip zipData = (if zipData = example_zip then Some example_files else None)"

definition example_env :: env where
  "example_env =
     \<lparr> platform = Linux,
       tmpdir = ''/tmp'',
       json_parse = example_parse,
       json_stringify = example_stringify,
       unzip = example_unzip,
       https_get = (\<lambda>extensionId. if extensionId = ''smartlink-extension''
                                   then Body example_zip else Body example_crx),
       now = 1700000000000,
       getProfiles_error = None,
       is_admin = False,
       reg_add_hklm = False,
       reg_add_hkcu = False,
       adm_zip = example_unzip,
       adm_zip_toBuffer = (\<lambda>xpi. xpi),
       md5 = (\<lambda>s. ''d41d8cd98f00b204e9800998ecf8427e''),
       mtime = 1700000000000,
       firefox_profiles_dir = ''/home/user/.mozilla/firefox'',
       absent_installer = (\<lambda>browser. Resolved) \<rparr>"

text \<open>The same machine with a network that answers 404.\<close>

definition offline_env :: env where
  "offline_env = example_env\<lparr>https_get := (\<lambda>extensionId. BadStatus 404)\<rparr>"

definition example_options :: installer_options where
  "example_options =
     \<lparr> profiles = None, installDir = None, downloadDir = Some ''/tmp/download'',
       forceReinstall = Some False, logLevel = Some ''info'', pinExtension = Some False,
       config = None \<rparr>"

text \<open>Profiles: one with \<open>Preferences: {}\<close>, one with a truncated file, one without the file.\<close>

definition empty_profile :: profile where
  "empty_profile =
     \<lparr> basename = ''Default'', preferenceFile = Some empty_object_text,
       Extensions = Map.empty \<rparr>"

definition malformed_profile :: profile where
  "malformed_profile =
     \<lparr> basename = ''Profile 1'', preferenceFile = Some malformed_text,
       Extensions = Map.empty \<rparr>"

definition bare_profile :: profile where
  "bare_profile =
     \<lparr> basename = ''Profile 2'', preferenceFile = None, Extensions = Map.empty \<rparr>"

definition downloaded :: shared where
  "downloaded = \<lparr> download_dir = Some [''abc.crx'' \<mapsto> example_crx], launched = [] \<rparr>"

definition fresh :: shared where
  "fresh = \<lparr> download_dir = None, launched = [] \<rparr>"

section \<open>Reading a JSON document\<close>

text \<open>
  The value under a key of an object, and the value at the end of a path of keys such
  as \<open>extensions.settings[id].path\<close>; \<open>None\<close> where the path leaves the objects.
\<close>

fun lookup :: "json \<Rightarrow> string \<Rightarrow> json option" where
  "lookup (JObj kvs) k = map_of kvs k"
| "lookup v k = None"

fun json_path :: "json \<Rightarrow> string list \<Rightarrow> json option" where
  "json_path v [] = Some v"
| "json_path v (k # ks) = (case lookup v k of None \<Rightarrow> None | Some x \<Rightarrow> json_path x ks)"

section \<open>What patching leaves alone\<close>

text \<open>
  The keys of the \<open>extensions\<close> object the installers write: three hold objects keyed by
  extension identifier, two hold lists of identifiers.
\<close>

definition container_key :: "string \<Rightarrow> bool" where
  "container_key k = (k = ''settings'' \<or> k = ''opsettings'' \<or> k = ''external_extensions'')"

definition list_key :: "string \<Rightarrow> bool" where
  "list_key k = (k = ''known_enabled'' \<or> k = ''pinned_extensions'')"

text \<open>
  One \<open>extensions\<close> object against a later one: the other keys have the values they
  had, no key is lost, an entry under a key other than the identifier of the extension
  is still there, and a list of identifiers has only grown at its end.
\<close>

definition touched_only :: "string \<Rightarrow> json \<Rightarrow> json \<Rightarrow> bool" where
  "touched_only ext E E' =
     ((\<forall>k. \<not> container_key k \<and> \<not> list_key k \<longrightarrow> lookup E' k = lookup E k)
    \<and> (\<forall>k. lookup E k \<noteq> None \<longrightarrow> lookup E' k \<noteq> None)
    \<and> (\<forall>c k v. k \<noteq> ext \<and> json_path E [c, k] = Some v \<longrightarrow> json_path E' [c, k] = Some v)
    \<and> (\<forall>c xs. list_key c \<and> lookup E c = Some (JArr xs)
          \<longrightarrow> (\<exists>ys. lookup E' c = Some (JArr (xs @ ys)))))"

text \<open>
  The same for a whole \<open>Preferences\<close> document: every top-level key but \<open>extensions\<close> has
  the value it had and no key is lost; below \<open>extensions\<close>, what holds for the
  \<open>extensions\<close> object.
\<close>

definition unrelated_preserved :: "string \<Rightarrow> json \<Rightarrow> json \<Rightarrow> bool" where
  "unrelated_preserved ext prefs prefs' =
     ((\<forall>k. k \<noteq> ''extensions'' \<longrightarrow> lookup prefs' k = lookup prefs k)
    \<and> (\<forall>k. lookup prefs k \<noteq> None \<longrightarrow> lookup prefs' k \<noteq> None)
    \<and> (\<forall>k. \<not> container_key k \<and> \<not> list_key k
          \<longrightarrow> json_path prefs' [''extensions'', k] = json_path prefs [''extensions'', k])
    \<and> (\<forall>k. json_path prefs [''extensions'', k] \<noteq> None
          \<longrightarrow> json_path prefs' [''extensions'', k] \<noteq> None)
    \<and> (\<forall>c k v. k \<noteq> ext \<and> json_path prefs [''extensions'', c, k] = Some v
          \<longrightarrow> json_path prefs' [''extensions'', c, k] = Some v)
    \<and> (\<forall>c xs. list_key c \<and> json_path prefs [''extensions'', c] = Some (JArr xs)
          \<longrightarrow> (\<exists>ys. json_path prefs' [''extensions'', c] = Some (JArr (xs @ ys)))))"

text \<open>A Vivaldi installation with the truncated profile first and the empty one second.\<close>

definition two_profiles :: chromium where
  "two_profiles =
     \<lparr> profile_dirs = [malformed_profile, empty_profile], shared_state = fresh, registry = [] \<rparr>"

text \<open>A profile with data of its own.\<close>

definition busy_profile :: profile where
  "busy_profile =
     \<lparr> basename = ''Profile 3'', preferenceFile = Some busy_text, Extensions = Map.empty \<rparr>"

text \<open>A Firefox installation with one profile, and the machine as a whole.\<close>

definition example_firefox :: firefox where
  "example_firefox =
     \<lparr> ff_profiles =
         [\<lparr> ff_name = ''default-release'', ff_path = ''/home/user/.mozilla/firefox/x.default'',
            ff_default = True, ff_extensions = None, extensions_json = None \<rparr>],
       ff_fallback = None,
       ff_download_dir = None,
       ff_launched = [] \<rparr>"

definition example_system :: system where
  "example_system =
     \<lparr> vivaldi = two_profiles,
       opera = \<lparr> profile_dirs = [empty_profile], shared_state = fresh, registry = [] \<rparr>,
       firefox = example_firefox \<rparr>"

text \<open>\<open>install-extension --browser <name>\<close> with the defaults \<open>yargs\<close> fills in.\<close>

definition example_argv :: "string \<Rightarrow> argv" where
  "example_argv browser =
     \<lparr> argv_smartLinkUrl = None, argv_secret = None, argv_browser = Some browser,
       argv_profiles = None, argv_installDir = None, argv_downloadDir = None,
       argv_forceReinstall = Some False, argv_logLevel = Some ''info'',
       argv_pinExtension = Some False \<rparr>"


section \<open>Evaluating the examples\<close>

lemma example_env_fields [simp]:
  "platform example_env = Linux"
  "tmpdir example_env = ''/tmp''"
  "json_parse example_env = example_parse"
  "json_stringify example_env = example_stringify"
  "unzip example_env = example_unzip"
  "https_get example_env ''abc'' = Body example_crx"
  "https_get example_env ''smartlink-extension'' = Body example_zip"
  "now example_env = 1700000000000"
  "getProfiles_error example_env = None"
  "adm_zip example_env = example_unzip"
  "adm_zip_toBuffer example_env = (\<lambda>xpi. xpi)"
  "firefox_profiles_dir example_env = ''/home/user/.mozilla/firefox''"
  by (simp_all add: example_env_def)

lemma offline_env_fields [simp]:
  "platform offline_env = Linux"
  "tmpdir offline_env = ''/tmp''"
  "json_parse offline_env = example_parse"
  "json_stringify offline_env = example_stringify"
  "https_get offline_env = (\<lambda>extensionId. BadStatus 404)"
  "getProfiles_error offline_env = None"
  "firefox_profiles_dir offline_env = ''/home/user/.mozilla/firefox''"
  by (simp_all add: offline_env_def example_env_def)

lemma example_options_fields [simp]:
  "profiles example_options = None"
  "downloadDir example_options = Some ''/tmp/download''"
  "forceReinstall example_options = Some False"
  "pinExtension example_options = Some False"
  "config example_options = None"
  by (simp_all add: example_options_def)

lemma example_parse_simps [simp]:
  "example_parse empty_object_text = Some (JObj [])"
  "example_parse manifest_text = Some example_manifest"
  "example_parse opsettings_text = Some (JObj [(''extensions'', JObj [(''opsettings'', JObj [])])])"
  "example_parse malformed_text = None"
  "example_parse busy_text = Some busy_preferences"
  by (simp_all add: example_parse_def empty_object_text_def manifest_text_def
      opsettings_text_def malformed_text_def busy_text_def)

lemma installer_zip_data_example [simp]: "installer_zip_data example_crx = example_zip"
  by (simp add: installer_zip_data_def zipStartOffset_def scan_from.simps signature_at_def
      example_crx_def example_zip_def)

lemma manifest_zip_offset_example [simp]: "manifest_zip_offset example_crx = Inr 8"
  by (simp add: manifest_zip_offset_def zipStartOffset_def scan_from.simps signature_at_def
      example_crx_def example_zip_def)

lemma drop_example_crx [simp]: "drop 8 example_crx = example_zip"
  by (simp add: example_crx_def)

lemma example_unzip_simps [simp]:
  "example_unzip example_zip = Some example_files"
  by (simp add: example_unzip_def)

lemma example_files_simps [simp]:
  "example_files ''manifest.json'' = Some manifest_text"
  by (simp add: example_files_def)

lemma example_manifest_version [simp]:
  "manifest_versionFormatted example_manifest = Inr ''1_0_0_0''"
  by (simp add: manifest_versionFormatted_def example_manifest_def andThen_def
      versionFormatted_def)

section \<open>Properties of the scan for the ZIP payload\<close>

text \<open>
  The scan reports the first offset that holds the signature when at least one byte
  follows it.
\<close>

lemma scan_from_finds:
  assumes "i \<le> k"
    and "\<And>j. i \<le> j \<Longrightarrow> j < k \<Longrightarrow> \<not> signature_at crxData j"
    and "signature_at crxData k"
    and "k + 4 < length crxData"
  shows "scan_from crxData i = k"
  using assms
proof (induction "k - i" arbitrary: i)
  case 0
  then have "i = k" by simp
  with 0 show ?case by (simp add: scan_from.simps)
next
  case (Suc n)
  then have lt: "i < k" by simp
  with Suc.prems have miss: "\<not> signature_at crxData i" by simp
  have "scan_from crxData (i + 1) = k"
    using Suc by (intro Suc.hyps) auto
  with miss lt Suc.prems show ?case by (subst scan_from.simps) auto
qed

lemma zipStartOffset_first_occurrence:
  assumes "\<And>j. j < k \<Longrightarrow> \<not> signature_at crxData j"
    and "signature_at crxData k"
    and "k + 4 < length crxData"
  shows "zipStartOffset crxData = k"
  unfolding zipStartOffset_def using assms by (intro scan_from_finds) auto

text \<open>
  C1. The claim asks for the offset of the first signature whenever there is one, and
  for an error when there is none, on the manifest path and on the install path. The
  code at four buffers: on the install path a buffer without a signature gives offset
  0 and the whole buffer goes on to the archive tool, no error being raised (the
  install path has no error to raise: its result is the data); a signature in the
  last four bytes is not seen by the scan, whose bound stops one position early; on
  the manifest path a buffer that starts with the signature is refused as if it had
  none; a buffer without a signature is refused there, which is what the claim asks.
\<close>

theorem zip_scan_at_examples:
  "installer_zip_data [0x43, 0x72, 0x32, 0x34, 0x03, 0x00, 0x00, 0x00]
     = [0x43, 0x72, 0x32, 0x34, 0x03, 0x00, 0x00, 0x00]
   \<and> zipStartOffset [0x43, 0x72, 0x32, 0x34, 0x03, 0x00, 0x00, 0x00] = 0
   \<and> signature_at [0x43, 0x72, 0x50, 0x4B, 0x03, 0x04] 2
   \<and> zipStartOffset [0x43, 0x72, 0x50, 0x4B, 0x03, 0x04] = 0
   \<and> signature_at [0x50, 0x4B, 0x03, 0x04, 0x14, 0x00] 0
   \<and> manifest_zip_offset [0x50, 0x4B, 0x03, 0x04, 0x14, 0x00] = Inl InvalidCrxFormat
   \<and> manifest_zip_offset [0x43, 0x72, 0x32, 0x34, 0x03, 0x00, 0x00, 0x00] = Inl InvalidCrxFormat"
  by (simp add: installer_zip_data_def manifest_zip_offset_def zipStartOffset_def
      scan_from.simps signature_at_def)

section \<open>Errors of the JavaScript operations\<close>

lemma js_get_error: "js_get v k = Inl err \<Longrightarrow> err = TypeError"
  by (cases v) auto

lemma js_set_error: "js_set v k x = Inl err \<Longrightarrow> err = TypeError"
  by (cases v) (auto split: option.splits if_splits)

lemma settings_entry_error:
  "settings_entry extensionId manifest versionDir t = Inl err \<Longrightarrow> err = TypeError"
  by (auto simp: settings_entry_def andThen_def split: sum.splits dest: js_get_error)

section \<open>The installers at the examples\<close>

lemma extract_archive_example [simp]:
  "extract_archive example_env example_options ''abc'' example_manifest
     (Some [''abc.crx'' \<mapsto> example_crx])
   = (Next, Some [''abc.crx'' \<mapsto> example_crx, ''extension.zip'' \<mapsto> example_zip],
      example_files)"
  by (simp add: extract_archive_def read_file_def)

lemma downloadExtension_example [simp]:
  "downloadExtension example_env example_options ''abc'' None
   = (Inr (), Some [''abc.crx'' \<mapsto> example_crx])"
  by (simp add: downloadExtension_def)

lemma extractManifestFromCrx_example [simp]:
  "extractManifestFromCrx example_env (Some example_crx) = example_manifest"
  by (simp add: extractManifestFromCrx_def extractManifest_try_def andThen_def)

lemma fresh_fields [simp]: "download_dir fresh = None" "launched fresh = []"
  by (simp_all add: fresh_def)

lemma downloaded_fields [simp]:
  "download_dir downloaded = Some [''abc.crx'' \<mapsto> example_crx]" "launched downloaded = []"
  by (simp_all add: downloaded_def)

lemma fresh_downloaded:
  "fresh\<lparr>download_dir := Some [''abc.crx'' \<mapsto> example_crx]\<rparr> = downloaded"
  by (simp add: fresh_def downloaded_def)

lemma Opera_patch_empty:
  "Opera_patch pin extensionId manifest versionDir t (JObj []) = Inl TypeError"
  by (cases "settings_entry extensionId manifest versionDir t")
     (auto simp: Opera_patch_def ensure_def andThen_def dest: settings_entry_error)

lemma Opera_profile_empty:
  "Opera_profile example_env example_options ''abc'' example_manifest empty_profile downloaded
   = (Throw TypeError,
      empty_profile\<lparr>Extensions := [''abc'' \<mapsto> [''1_0_0_0'' \<mapsto> example_files]]\<rparr>,
      downloaded\<lparr>download_dir :=
        Some [''abc.crx'' \<mapsto> example_crx, ''extension.zip'' \<mapsto> example_zip]\<rparr>)"
  by (simp add: Opera_profile_def Opera_patch_empty mkdir_extensionsDir_def version_dir_def
      put_version_dir_def empty_profile_def Let_def)

text \<open>
  C2. The claim asks every Chromium-family installer to end normally on a profile whose
  \<open>Preferences\<close> file is \<open>{}\<close> and to leave \<open>extensions.settings["abc"].path\<close> behind. The
  loop body of \<open>Opera\<close> on that profile, for extension \<open>abc\<close> at version \<open>1.0.0\<close>: it throws
  a \<open>TypeError\<close> (it stores the record into \<open>extensions.opsettings\<close>, which is undefined),
  the version directory holds the unpacked archive, the \<open>Preferences\<close> file is still
  \<open>{}\<close>, and the run over this one profile is rejected with that error.
\<close>

theorem Opera_empty_preferences_throws:
  "(case Opera_profile example_env example_options ''abc'' example_manifest empty_profile
           downloaded of
      (fl, p', s') \<Rightarrow>
        fl = Throw TypeError
        \<and> preferenceFile p' = Some empty_object_text
        \<and> version_dir p' ''abc'' ''1_0_0_0'' = Some example_files)
   \<and> fst (Opera_installExtension example_env example_options ''abc''
            \<lparr>profile_dirs = [empty_profile], shared_state = fresh, registry = []\<rparr>)
       = Rejected TypeError"
proof -
  have "fst (Opera_installExtension example_env example_options ''abc''
            \<lparr>profile_dirs = [empty_profile], shared_state = fresh, registry = []\<rparr>)
       = Rejected TypeError"
    by (simp add: Opera_installExtension_def fresh_downloaded read_file_def
        Opera_manifest_def Opera_profile_empty after_loop_def)
  then show ?thesis
    by (simp add: Opera_profile_empty version_dir_def) (simp add: empty_profile_def)
qed

section \<open>Frame properties of preference patching\<close>

lemma andThen_Inr: "andThen m f = Inr y \<longleftrightarrow> (\<exists>x. m = Inr x \<and> f x = Inr y)"
  by (cases m) (auto simp: andThen_def)

lemma touched_only_refl: "touched_only ext E E"
  unfolding touched_only_def by auto

lemma touched_only_trans:
  assumes "touched_only ext E1 E2" "touched_only ext E2 E3"
  shows "touched_only ext E1 E3"
proof -
  have a1: "\<And>k. \<not> container_key k \<and> \<not> list_key k \<Longrightarrow> lookup E2 k = lookup E1 k"
    and a2: "\<And>k. lookup E1 k \<noteq> None \<Longrightarrow> lookup E2 k \<noteq> None"
    and a3: "\<And>c k v. k \<noteq> ext \<and> json_path E1 [c, k] = Some v \<Longrightarrow> json_path E2 [c, k] = Some v"
    and a4: "\<And>c xs. list_key c \<and> lookup E1 c = Some (JArr xs) \<Longrightarrow> \<exists>ys. lookup E2 c = Some (JArr (xs @ ys))"
    using assms(1) unfolding touched_only_def by blast+
  have b1: "\<And>k. \<not> container_key k \<and> \<not> list_key k \<Longrightarrow> lookup E3 k = lookup E2 k"
    and b2: "\<And>k. lookup E2 k \<noteq> None \<Longrightarrow> lookup E3 k \<noteq> None"
    and b3: "\<And>c k v. k \<noteq> ext \<and> json_path E2 [c, k] = Some v \<Longrightarrow> json_path E3 [c, k] = Some v"
    and b4: "\<And>c xs. list_key c \<and> lookup E2 c = Some (JArr xs) \<Longrightarrow> \<exists>ys. lookup E3 c = Some (JArr (xs @ ys))"
    using assms(2) unfolding touched_only_def by blast+
  show ?thesis
    unfolding touched_only_def
  proof (intro conjI allI impI)
    fix k assume "\<not> container_key k \<and> \<not> list_key k"
    then show "lookup E3 k = lookup E1 k" using a1 b1 by simp
  next
    fix k assume "lookup E1 k \<noteq> None"
    then show "lookup E3 k \<noteq> None" using a2 b2 by blast
  next
    fix c k v assume "k \<noteq> ext \<and> json_path E1 [c, k] = Some v"
    then show "json_path E3 [c, k] = Some v" using a3 b3 by blast
  next
    fix c xs assume a: "list_key c \<and> lookup E1 c = Some (JArr xs)"
    then obtain ys where "lookup E2 c = Some (JArr (xs @ ys))" using a4 by blast
    with a obtain zs where "lookup E3 c = Some (JArr ((xs @ ys) @ zs))" using b4 by blast
    then show "\<exists>ys. lookup E3 c = Some (JArr (xs @ ys))" by auto
  qed
qed

lemma js_get_lookup: "js_get v k = Inr x \<Longrightarrow> x = lookup v k"
  by (cases v) auto

lemma js_set_cases:
  assumes "js_set v k x = Inr v'"
  shows "(\<exists>kvs. v = JObj kvs \<and> v' = JObj (AList.update k x kvs))
       \<or> ((\<exists>xs. v = JArr xs) \<and> (\<exists>xs. v' = JArr xs))"
proof (cases v)
  case (JArr xs)
  with assms show ?thesis by (cases "array_index k") (auto split: if_splits)
qed (use assms in auto)

lemma lookup_update: "lookup (JObj (AList.update k x kvs)) j = (if j = k then Some x else lookup (JObj kvs) j)"
  by (simp add: update_conv)

lemma js_set_other: "js_set v k x = Inr v' \<Longrightarrow> j \<noteq> k \<Longrightarrow> lookup v' j = lookup v j"
  using js_set_cases [of v k x v'] lookup_update [of k x _ j] by auto

lemma ensure_cases:
  assumes "ensure obj k d = Inr (obj', v)"
  shows "(obj' = obj \<and> lookup obj k = Some v \<and> truthy v)
       \<or> (v = d \<and> \<not> truthy_opt (lookup obj k) \<and> js_set obj k d = Inr obj')"
proof -
  obtain g where g: "js_get obj k = Inr g"
    using assms by (cases "js_get obj k") (auto simp: ensure_def andThen_def)
  then have gl: "lookup obj k = g" using js_get_lookup by blast
  show ?thesis
  proof (cases g)
    case None
    with g gl assms show ?thesis
      by (cases "js_set obj k d") (auto simp: ensure_def andThen_def)
  next
    case (Some x)
    show ?thesis
    proof (cases "truthy x")
      case True
      with Some g gl assms show ?thesis by (auto simp: ensure_def andThen_def)
    next
      case False
      with Some g gl assms show ?thesis
        by (cases "js_set obj k d") (auto simp: ensure_def andThen_def)
    qed
  qed
qed

lemma key_kinds_disjoint: "container_key c \<Longrightarrow> \<not> list_key c"
  by (auto simp: container_key_def list_key_def)

lemma lookup_Some_obj: "lookup v k = Some x \<Longrightarrow> \<exists>kvs. v = JObj kvs"
  by (cases v) auto

lemma truthy_obj: "lookup v k = Some x \<Longrightarrow> truthy v"
  by (cases v) auto

lemma json_path2: "json_path E [c, k] = Some v \<longleftrightarrow> (\<exists>S. lookup E c = Some S \<and> lookup S k = Some v)"
  by (auto split: option.splits)

lemma store_entry_touched:
  assumes child: "lookup E1 c = Some S \<or> (\<exists>xs. E1 = JArr xs)"
    and set: "js_set S ext x = Inr S'"
    and put: "js_set E1 c S' = Inr E2"
    and key: "container_key c"
  shows "touched_only ext E1 E2"
proof -
  from js_set_cases [OF put] show ?thesis
  proof
    assume "\<exists>kvs. E1 = JObj kvs \<and> E2 = JObj (AList.update c S' kvs)"
    then obtain kvs where E1: "E1 = JObj kvs" and E2: "E2 = JObj (AList.update c S' kvs)" by blast
    have l2: "\<And>j. lookup E2 j = (if j = c then Some S' else lookup E1 j)"
      unfolding E1 E2 by (rule lookup_update)
    from child E1 have S: "lookup E1 c = Some S" by auto
    show ?thesis
      unfolding touched_only_def
    proof (intro conjI allI impI)
      fix k assume "\<not> container_key k \<and> \<not> list_key k"
      with key have "k \<noteq> c" by auto
      then show "lookup E2 k = lookup E1 k" by (simp add: l2)
    next
      fix k assume "lookup E1 k \<noteq> None"
      then show "lookup E2 k \<noteq> None" by (simp add: l2)
    next
      fix c' k v assume a: "k \<noteq> ext \<and> json_path E1 [c', k] = Some v"
      then obtain S0 where S0: "lookup E1 c' = Some S0" "lookup S0 k = Some v"
        unfolding json_path2 by blast
      show "json_path E2 [c', k] = Some v"
      proof (cases "c' = c")
        case False
        with S0 show ?thesis unfolding json_path2 by (simp add: l2)
      next
        case True
        with S0 S have "S0 = S" by simp
        with S0 have "lookup S k = Some v" by simp
        with a js_set_other [OF set, of k] have "lookup S' k = Some v" by simp
        with True show ?thesis unfolding json_path2 by (simp add: l2)
      qed
    next
      fix c' xs assume a: "list_key c' \<and> lookup E1 c' = Some (JArr xs)"
      with key key_kinds_disjoint have "c' \<noteq> c" by blast
      with a have "lookup E2 c' = Some (JArr (xs @ []))" by (simp add: l2)
      then show "\<exists>ys. lookup E2 c' = Some (JArr (xs @ ys))" by blast
    qed
  next
    assume "(\<exists>xs. E1 = JArr xs) \<and> (\<exists>xs. E2 = JArr xs)"
    then show ?thesis by (auto simp: touched_only_def)
  qed
qed

lemma ensure_touched:
  assumes ens: "ensure E c d = Inr (E1, S)"
    and key: "container_key c \<or> list_key c"
  shows "touched_only ext E E1 \<and> (lookup E1 c = Some S \<or> (\<exists>xs. E1 = JArr xs))"
proof -
  from ensure_cases [OF ens] show ?thesis
  proof
    assume "E1 = E \<and> lookup E c = Some S \<and> truthy S"
    then show ?thesis by (simp add: touched_only_refl)
  next
    assume a: "S = d \<and> \<not> truthy_opt (lookup E c) \<and> js_set E c d = Inr E1"
    then have put: "js_set E c d = Inr E1" and falsy: "\<not> truthy_opt (lookup E c)" by auto
    from js_set_cases [OF put] show ?thesis
    proof
      assume "\<exists>kvs. E = JObj kvs \<and> E1 = JObj (AList.update c d kvs)"
      then obtain kvs where E: "E = JObj kvs" and E1: "E1 = JObj (AList.update c d kvs)" by blast
      have l2: "\<And>j. lookup E1 j = (if j = c then Some d else lookup E j)"
        unfolding E E1 by (rule lookup_update)
      have "touched_only ext E E1"
        unfolding touched_only_def
      proof (intro conjI allI impI)
        fix k assume "\<not> container_key k \<and> \<not> list_key k"
        with key have "k \<noteq> c" by auto
        then show "lookup E1 k = lookup E k" by (simp add: l2)
      next
        fix k assume "lookup E k \<noteq> None"
        then show "lookup E1 k \<noteq> None" by (simp add: l2)
      next
        fix c' k v assume b: "k \<noteq> ext \<and> json_path E [c', k] = Some v"
        then obtain S0 where S0: "lookup E c' = Some S0" "lookup S0 k = Some v"
          unfolding json_path2 by blast
        then have "truthy S0" using truthy_obj by blast
        with S0 falsy have "c' \<noteq> c" by auto
        with S0 show "json_path E1 [c', k] = Some v" unfolding json_path2 by (simp add: l2)
      next
        fix c' xs assume b: "list_key c' \<and> lookup E c' = Some (JArr xs)"
        with falsy have "c' \<noteq> c" by auto
        with b have "lookup E1 c' = Some (JArr (xs @ []))" by (simp add: l2)
        then show "\<exists>ys. lookup E1 c' = Some (JArr (xs @ ys))" by blast
      qed
      moreover have "lookup E1 c = Some S" using a by (simp add: l2)
      ultimately show ?thesis by simp
    next
      assume "(\<exists>xs. E = JArr xs) \<and> (\<exists>xs. E1 = JArr xs)"
      then show ?thesis by (auto simp: touched_only_def)
    qed
  qed
qed

lemma push_if_absent_cases:
  assumes "push_if_absent ids ext = Inr ids'"
  shows "(\<exists>xs ys. ids = JArr xs \<and> ids' = JArr (xs @ ys)) \<or> (\<exists>s. ids = JStr s \<and> ids' = ids)"
  using assms by (cases ids) (auto simp: push_if_absent_def andThen_def split: if_splits)

lemma register_in_touched:
  assumes reg: "register_in E c ext = Inr E'"
    and key: "list_key c"
  shows "touched_only ext E E'"
proof -
  from reg obtain E1 ids ids' where
    ens: "ensure E c (JArr []) = Inr (E1, ids)" and
    push: "push_if_absent ids ext = Inr ids'" and
    put: "js_set E1 c ids' = Inr E'"
    by (auto simp: register_in_def andThen_Inr split: prod.splits)
  from ensure_touched [OF ens, of ext] key
  have t1: "touched_only ext E E1" and child: "lookup E1 c = Some ids \<or> (\<exists>xs. E1 = JArr xs)"
    by auto
  have "touched_only ext E1 E'"
  proof -
    from js_set_cases [OF put] show ?thesis
    proof
      assume "\<exists>kvs. E1 = JObj kvs \<and> E' = JObj (AList.update c ids' kvs)"
      then obtain kvs where E1: "E1 = JObj kvs" and E': "E' = JObj (AList.update c ids' kvs)"
        by blast
      have l2: "\<And>j. lookup E' j = (if j = c then Some ids' else lookup E1 j)"
        unfolding E1 E' by (rule lookup_update)
      from child E1 have ids: "lookup E1 c = Some ids" by auto
      show ?thesis
        unfolding touched_only_def
      proof (intro conjI allI impI)
        fix k assume "\<not> container_key k \<and> \<not> list_key k"
        with key have "k \<noteq> c" by auto
        then show "lookup E' k = lookup E1 k" by (simp add: l2)
      next
        fix k assume "lookup E1 k \<noteq> None"
        then show "lookup E' k \<noteq> None" by (simp add: l2)
      next
        fix c' k v assume b: "k \<noteq> ext \<and> json_path E1 [c', k] = Some v"
        then obtain S0 where S0: "lookup E1 c' = Some S0" "lookup S0 k = Some v"
          unfolding json_path2 by blast
        then obtain kvs' where "S0 = JObj kvs'" using lookup_Some_obj by blast
        with push_if_absent_cases [OF push] ids S0 have "c' \<noteq> c" by auto
        with S0 show "json_path E' [c', k] = Some v" unfolding json_path2 by (simp add: l2)
      next
        fix c' xs assume b: "list_key c' \<and> lookup E1 c' = Some (JArr xs)"
        show "\<exists>ys. lookup E' c' = Some (JArr (xs @ ys))"
        proof (cases "c' = c")
          case False
          with b have "lookup E' c' = Some (JArr (xs @ []))" by (simp add: l2)
          then show ?thesis by blast
        next
          case True
          with b ids have "ids = JArr xs" by simp
          with push_if_absent_cases [OF push] obtain ys where "ids' = JArr (xs @ ys)" by auto
          with True show ?thesis by (simp add: l2)
        qed
      qed
    next
      assume "(\<exists>xs. E1 = JArr xs) \<and> (\<exists>xs. E' = JArr xs)"
      then show ?thesis by (auto simp: touched_only_def)
    qed
  qed
  with t1 show ?thesis by (rule touched_only_trans)
qed


lemma json_path1: "json_path E [k] = lookup E k"
  by (auto split: option.splits)

lemma frame_top:
  assumes ens: "ensure prefs ''extensions'' (JObj []) = Inr (prefs1, E)"
    and t: "touched_only ext E E6"
    and put: "js_set prefs1 ''extensions'' E6 = Inr prefs'"
  shows "unrelated_preserved ext prefs prefs'"
proof -
  have t1: "\<And>k. \<not> container_key k \<and> \<not> list_key k \<Longrightarrow> lookup E6 k = lookup E k"
    and t2: "\<And>k. lookup E k \<noteq> None \<Longrightarrow> lookup E6 k \<noteq> None"
    and t3: "\<And>c k v. k \<noteq> ext \<and> json_path E [c, k] = Some v \<Longrightarrow> json_path E6 [c, k] = Some v"
    and t4: "\<And>c xs. list_key c \<and> lookup E c = Some (JArr xs) \<Longrightarrow> \<exists>ys. lookup E6 c = Some (JArr (xs @ ys))"
    using t unfolding touched_only_def by blast+
  have old: "\<And>k ks. json_path prefs (''extensions'' # k # ks) = json_path E (k # ks)"
  proof -
    fix k ks
    from ensure_cases [OF ens] show "json_path prefs (''extensions'' # k # ks) = json_path E (k # ks)"
    proof
      assume "prefs1 = prefs \<and> lookup prefs ''extensions'' = Some E \<and> truthy E"
      then show ?thesis by simp
    next
      assume a: "E = JObj [] \<and> \<not> truthy_opt (lookup prefs ''extensions'')
                 \<and> js_set prefs ''extensions'' (JObj []) = Inr prefs1"
      have "json_path prefs (''extensions'' # k # ks) = None"
      proof (cases "lookup prefs ''extensions''")
        case None
        then show ?thesis by simp
      next
        case (Some F)
        with a have "\<not> truthy F" by simp
        then have "lookup F k = None" by (cases F) auto
        with Some show ?thesis by simp
      qed
      with a show ?thesis by simp
    qed
  qed
  have shape: "(\<forall>j. lookup prefs' j = (if j = ''extensions'' then Some E6 else lookup prefs j))
             \<or> ((\<forall>j. lookup prefs j = None) \<and> (\<forall>j. lookup prefs' j = None))"
  proof -
    from js_set_cases [OF put] show ?thesis
    proof
      assume "\<exists>kvs. prefs1 = JObj kvs \<and> prefs' = JObj (AList.update ''extensions'' E6 kvs)"
      then obtain kvs where p1: "prefs1 = JObj kvs"
        and p': "prefs' = JObj (AList.update ''extensions'' E6 kvs)" by blast
      have l': "\<And>j. lookup prefs' j = (if j = ''extensions'' then Some E6 else lookup prefs1 j)"
        unfolding p1 p' by (rule lookup_update)
      have "\<And>j. j \<noteq> ''extensions'' \<Longrightarrow> lookup prefs1 j = lookup prefs j"
        using ensure_cases [OF ens] js_set_other by blast
      with l' show ?thesis by simp
    next
      assume a: "(\<exists>xs. prefs1 = JArr xs) \<and> (\<exists>xs. prefs' = JArr xs)"
      from ensure_cases [OF ens] have "\<exists>xs. prefs = JArr xs"
      proof
        assume "prefs1 = prefs \<and> lookup prefs ''extensions'' = Some E \<and> truthy E"
        with a show ?thesis by simp
      next
        assume "E = JObj [] \<and> \<not> truthy_opt (lookup prefs ''extensions'')
                 \<and> js_set prefs ''extensions'' (JObj []) = Inr prefs1"
        then have "js_set prefs ''extensions'' (JObj []) = Inr prefs1" by simp
        from js_set_cases [OF this] a show ?thesis by auto
      qed
      with a show ?thesis by auto
    qed
  qed
  from shape show ?thesis
  proof
    assume l': "\<forall>j. lookup prefs' j = (if j = ''extensions'' then Some E6 else lookup prefs j)"
    then have new: "\<And>ks. json_path prefs' (''extensions'' # ks) = json_path E6 ks" by simp
    show ?thesis
      unfolding unrelated_preserved_def
    proof (intro conjI allI impI)
      fix k :: string assume "k \<noteq> ''extensions''"
      with l' show "lookup prefs' k = lookup prefs k" by simp
    next
      fix k assume "lookup prefs k \<noteq> None"
      with l' show "lookup prefs' k \<noteq> None" by simp
    next
      fix k assume "\<not> container_key k \<and> \<not> list_key k"
      then have "lookup E6 k = lookup E k" by (rule t1)
      then show "json_path prefs' [''extensions'', k] = json_path prefs [''extensions'', k]"
        unfolding new old by (simp only: json_path1)
    next
      fix k assume "json_path prefs [''extensions'', k] \<noteq> None"
      then have "lookup E k \<noteq> None" unfolding old json_path1 .
      then have "lookup E6 k \<noteq> None" by (rule t2)
      then show "json_path prefs' [''extensions'', k] \<noteq> None" unfolding new json_path1 .
    next
      fix c k v assume "k \<noteq> ext \<and> json_path prefs [''extensions'', c, k] = Some v"
      then have "k \<noteq> ext \<and> json_path E [c, k] = Some v" unfolding old .
      then have "json_path E6 [c, k] = Some v" by (rule t3)
      then show "json_path prefs' [''extensions'', c, k] = Some v" unfolding new .
    next
      fix c xs assume "list_key c \<and> json_path prefs [''extensions'', c] = Some (JArr xs)"
      then have "list_key c \<and> lookup E c = Some (JArr xs)" unfolding old json_path1 .
      then have "\<exists>ys. lookup E6 c = Some (JArr (xs @ ys))" by (rule t4)
      then show "\<exists>ys. json_path prefs' [''extensions'', c] = Some (JArr (xs @ ys))"
        unfolding new json_path1 .
    qed
  next
    assume "(\<forall>j. lookup prefs j = None) \<and> (\<forall>j. lookup prefs' j = None)"
    then show ?thesis by (simp add: unrelated_preserved_def)
  qed
qed

lemma register_extension_touched:
  assumes "register_extension pin ext t prefs1 E2 = Inr prefs'"
  shows "\<exists>E6. touched_only ext E2 E6 \<and> js_set prefs1 ''extensions'' E6 = Inr prefs'"
proof -
  from assms obtain E3 X X' E4 E5 E6 where
    ens: "ensure E2 ''external_extensions'' (JObj []) = Inr (E3, X)" and
    set: "js_set X ext (external_entry t) = Inr X'" and
    put: "js_set E3 ''external_extensions'' X' = Inr E4" and
    known: "register_in E4 ''known_enabled'' ext = Inr E5" and
    pinned: "(if pin then register_in E5 ''pinned_extensions'' ext else Inr E5) = Inr E6" and
    top: "js_set prefs1 ''extensions'' E6 = Inr prefs'"
    by (auto simp: register_extension_def andThen_Inr split: prod.splits)
  have ck: "container_key ''external_extensions''" by (simp add: container_key_def)
  have lk: "list_key ''known_enabled''" "list_key ''pinned_extensions''"
    by (simp_all add: list_key_def)
  from ensure_touched [OF ens, of ext] ck
  have a: "touched_only ext E2 E3"
    and child: "lookup E3 ''external_extensions'' = Some X \<or> (\<exists>xs. E3 = JArr xs)" by auto
  have b: "touched_only ext E3 E4" using child set put ck by (rule store_entry_touched)
  have c: "touched_only ext E4 E5" using known lk(1) by (rule register_in_touched)
  have d: "touched_only ext E5 E6"
  proof (cases pin)
    case True
    with pinned have "register_in E5 ''pinned_extensions'' ext = Inr E6" by simp
    then show ?thesis using lk(2) by (rule register_in_touched)
  next
    case False
    with pinned show ?thesis by (simp add: touched_only_refl)
  qed
  from a b c d have "touched_only ext E2 E6" by (blast intro: touched_only_trans)
  with top show ?thesis by blast
qed

lemma Vivaldi_patch_frame:
  assumes "Vivaldi_patch pin ext manifest versionDir t prefs = Inr prefs'"
  shows "unrelated_preserved ext prefs prefs'"
proof -
  from assms obtain prefs1 E E1 S entry S' E2 where
    top: "ensure prefs ''extensions'' (JObj []) = Inr (prefs1, E)" and
    ens: "ensure E ''settings'' (JObj []) = Inr (E1, S)" and
    set: "js_set S ext entry = Inr S'" and
    put: "js_set E1 ''settings'' S' = Inr E2" and
    reg: "register_extension pin ext t prefs1 E2 = Inr prefs'"
    by (auto simp: Vivaldi_patch_def andThen_Inr split: prod.splits)
  have ck: "container_key ''settings''" by (simp add: container_key_def)
  from ensure_touched [OF ens, of ext] ck
  have a: "touched_only ext E E1"
    and child: "lookup E1 ''settings'' = Some S \<or> (\<exists>xs. E1 = JArr xs)" by auto
  have b: "touched_only ext E1 E2" using child set put ck by (rule store_entry_touched)
  from register_extension_touched [OF reg] obtain E6 where
    c: "touched_only ext E2 E6" and fin: "js_set prefs1 ''extensions'' E6 = Inr prefs'" by blast
  from a b c have "touched_only ext E E6" by (blast intro: touched_only_trans)
  with top show ?thesis using fin by (rule frame_top)
qed

lemma Opera_patch_frame:
  assumes "Opera_patch pin ext manifest versionDir t prefs = Inr prefs'"
  shows "unrelated_preserved ext prefs prefs'"
proof -
  from assms obtain prefs1 E opsettings E1 entry target O' E2 where
    top: "ensure prefs ''extensions'' (JObj []) = Inr (prefs1, E)" and
    get: "js_get E ''opsettings'' = Inr opsettings" and
    reset: "(if truthy_opt opsettings then Inr E else js_set E ''settings'' (JObj [])) = Inr E1" and
    tgt: "opsettings = Some target" and
    set: "js_set target ext entry = Inr O'" and
    put: "js_set E1 ''opsettings'' O' = Inr E2" and
    reg: "register_extension pin ext t prefs1 E2 = Inr prefs'"
    by (auto simp: Opera_patch_def andThen_Inr split: prod.splits option.splits)
  have ck: "container_key ''opsettings''" by (simp add: container_key_def)
  from js_set_cases [OF set] have "truthy target" by auto
  with reset tgt have E1: "E1 = E" by simp
  from get tgt have "lookup E ''opsettings'' = Some target" using js_get_lookup by fastforce
  with E1 have child: "lookup E1 ''opsettings'' = Some target \<or> (\<exists>xs. E1 = JArr xs)" by simp
  have b: "touched_only ext E1 E2" using child set put ck by (rule store_entry_touched)
  from register_extension_touched [OF reg] obtain E6 where
    c: "touched_only ext E2 E6" and fin: "js_set prefs1 ''extensions'' E6 = Inr prefs'" by blast
  from b c E1 have "touched_only ext E E6" by (blast intro: touched_only_trans)
  with top show ?thesis using fin by (rule frame_top)
qed

section \<open>Failures inside the loop over the profiles\<close>




lemma Vivaldi_manifest_example [simp]:
  "Vivaldi_manifest example_env (Some example_crx) = example_manifest"
  by (simp add: Vivaldi_manifest_def Let_def) (simp add: example_manifest_def)


lemma two_profiles_fields [simp]:
  "profile_dirs two_profiles = [malformed_profile, empty_profile]"
  "shared_state two_profiles = fresh"
  by (simp_all add: two_profiles_def)

lemma malformed_profile_fields [simp]:
  "preferenceFile malformed_profile = Some malformed_text"
  by (simp add: malformed_profile_def)



section \<open>Download failures and the exit code\<close>


lemma toLowerCase_names [simp]:
  "toLowerCase ''firefox'' = ''firefox''" "toLowerCase ''opera'' = ''opera''"
  "toLowerCase ''vivaldi'' = ''vivaldi''"
  by (simp_all add: toLowerCase_def)

lemma downloadExtension_fails:
  assumes "\<And>b. https_get e extensionId \<noteq> Body b"
  shows "\<exists>err dl'. downloadExtension e options extensionId dl = (Inl err, dl')"
  using assms by (cases "https_get e extensionId") (auto simp: downloadExtension_def Let_def)

lemma Firefox_downloadExtension_fails:
  assumes "\<And>b. https_get e extensionId \<noteq> Body b"
  shows "\<exists>err w'. Firefox_downloadExtension e this extensionId w = (Inl err, w')"
  using assms
  by (cases "https_get e extensionId"; cases "ff_download_dir w")
     (auto simp: Firefox_downloadExtension_def Let_def)

lemma Firefox_installExtension_download_fails:
  assumes "\<And>b. https_get e extensionId \<noteq> Body b"
    and "\<not> isExtensionInstalled this (installed_id extensionId) w \<or> truthy_flag (forceReinstall (ff_options this))"
  shows "fst (Firefox_installExtension e this extensionId w) = False"
  using Firefox_downloadExtension_fails [OF assms(1), of this w] assms(2)
  by (auto simp: Firefox_installExtension_def)

lemma installExtension_download_fails:
  assumes "b = Vivaldi \<longrightarrow> platform e \<noteq> Win32"
    and "getProfiles_error e = None"
    and "\<And>x. https_get e extensionId \<noteq> Body x"
  shows "\<exists>err dl. installExtension b e options extensionId w
          = (Rejected (DownloadFailed err), w\<lparr>shared_state := (shared_state w)\<lparr>download_dir := dl\<rparr>\<rparr>)"
proof -
  obtain err dl where d: "downloadExtension e options extensionId (download_dir (shared_state w)) = (Inl err, dl)"
    using downloadExtension_fails [OF assms(3)] by blast
  have "installExtension b e options extensionId w
          = (Rejected (DownloadFailed err), w\<lparr>shared_state := (shared_state w)\<lparr>download_dir := dl\<rparr>\<rparr>)"
  proof (cases b)
    case Vivaldi
    with assms(1) have "platform e \<noteq> Win32" by simp
    with Vivaldi assms(2) d show ?thesis
      by (simp add: installExtension_def Vivaldi_installExtension_def)
  next
    case Opera
    with assms(2) d show ?thesis
      by (simp add: installExtension_def Opera_installExtension_def)
  qed
  then show ?thesis by blast
qed

lemma cli_exit_code:
  "fst (cli e (InstallExtension a) sys)
   = (case fst (installExtensionCommand e a sys) of Rejected err \<Rightarrow> 1 | Resolved \<Rightarrow> 0)"
  by (cases "installExtensionCommand e a sys") (auto simp: cli_def split: outcome.splits)

lemma command_firefox:
  assumes "argv_browser a = Some ''firefox''"
  shows "fst (installExtensionCommand e a sys)
         = (case fst (new_Firefox e (installerOptions a) (firefox sys)) of
              Inl err \<Rightarrow> Rejected err | Inr this \<Rightarrow> Resolved)"
  using assms
  by (cases "new_Firefox e (installerOptions a) (firefox sys)")
     (auto simp: installExtensionCommand_def Let_def split: sum.splits prod.splits)

lemma command_chromium:
  assumes "argv_browser a = Some ''opera'' \<and> b = Opera \<or> argv_browser a = Some ''vivaldi'' \<and> b = Vivaldi"
  shows "fst (installExtensionCommand e a sys)
         = fst (installExtension b e
                 (case b of Vivaldi \<Rightarrow> Vivaldi_options (tmpdir e) (installerOptions a)
                          | Opera \<Rightarrow> Opera_options (tmpdir e) (installerOptions a))
                 ''hfkipjpbjnpdpaofpilegpmbbfhmoceb''
                 (snd (case b of Vivaldi \<Rightarrow> new_Vivaldi e (installerOptions a) (vivaldi sys)
                               | Opera \<Rightarrow> new_Opera e (installerOptions a) (opera sys))))"
  using assms
  by (auto simp: installExtensionCommand_def Let_def installExtension_def new_Vivaldi_def new_Opera_def
      split: prod.splits)


lemma installed_id_smartlink [simp]: "installed_id ''smartlink-extension'' = ''smartlink-extension''"
  by (simp add: installed_id_def)

lemma installExtension_rejects:
  assumes "b = Vivaldi \<longrightarrow> platform e \<noteq> Win32"
    and "\<And>x. https_get e extensionId \<noteq> Body x"
  shows "\<exists>err. fst (installExtension b e options extensionId w) = Rejected err
           \<and> (getProfiles_error e = None \<longrightarrow> (\<exists>d. err = DownloadFailed d))"
proof (cases "getProfiles_error e")
  case None
  from installExtension_download_fails [OF assms(1) None assms(2), of options w]
  show ?thesis by auto
next
  case (Some err)
  with assms(1) show ?thesis
    by (cases b)
       (simp_all add: installExtension_def Vivaldi_installExtension_def Opera_installExtension_def)
qed

lemma installExtensions_download_fails:
  assumes "\<And>b. https_get e extensionId \<noteq> Body b"
    and "\<not> isExtensionInstalled this (installed_id extensionId) w
         \<or> truthy_flag (forceReinstall (ff_options this))"
  shows "fst (installExtensions e this [extensionId] w) = [(extensionId, False)]"
proof -
  have "fst (Firefox_installExtension e this extensionId w) = False"
    using assms by (rule Firefox_installExtension_download_fails)
  then show ?thesis
    by (cases "Firefox_installExtension e this extensionId w") simp
qed

text \<open>
  C4. The claim says that a failed download ends the installation of every browser
  family with an error that reaches the command line, which exits with code 1. The
  code, with a network that does not deliver the archive: for \<open>opera\<close> on every platform
  and for \<open>vivaldi\<close> off Windows (on Windows \<open>Vivaldi\<close> writes the registry and downloads
  nothing) the command rejects, with the download error when the profiles were found
  and with the error of the profile locator otherwise, and the command line exits with
  code 1. For \<open>firefox\<close> on every platform, once the installer is constructed, the
  result of \<open>installExtensions\<close> records the failure (unless the add-on was there already
  and no reinstall is forced), but the command does not look at it: it resolves and the
  command line exits with code 0. The exit code is 1 exactly when the command rejects.
\<close>

theorem download_failure_propagation:
  assumes "\<And>x. https_get e ''hfkipjpbjnpdpaofpilegpmbbfhmoceb'' \<noteq> Body x"
    and "\<And>x. https_get e ''smartlink-extension'' \<noteq> Body x"
  shows "(argv_browser a = Some ''opera''
            \<or> (argv_browser a = Some ''vivaldi'' \<and> platform e \<noteq> Win32)
            \<longrightarrow> (\<exists>err. fst (installExtensionCommand e a sys) = Rejected err
                      \<and> (getProfiles_error e = None \<longrightarrow> (\<exists>d. err = DownloadFailed d)))
               \<and> fst (cli e (InstallExtension a) sys) = 1)
       \<and> (argv_browser a = Some ''firefox''
            \<and> new_Firefox e (installerOptions a) (firefox sys) = (Inr this, w)
            \<longrightarrow> fst (installExtensionCommand e a sys) = Resolved
               \<and> fst (cli e (InstallExtension a) sys) = 0
               \<and> (\<not> isExtensionInstalled this ''smartlink-extension'' w
                     \<or> truthy_flag (forceReinstall (ff_options this))
                   \<longrightarrow> fst (installExtensions e this [''smartlink-extension''] w)
                         = [(''smartlink-extension'', False)]))
       \<and> fst (cli e (InstallExtension a) sys)
           = (case fst (installExtensionCommand e a sys) of Rejected err \<Rightarrow> 1 | Resolved \<Rightarrow> 0)"
proof (intro conjI impI)
  assume br: "argv_browser a = Some ''opera''
              \<or> (argv_browser a = Some ''vivaldi'' \<and> platform e \<noteq> Win32)"
  then obtain b where b: "argv_browser a = Some ''opera'' \<and> b = Opera
                         \<or> argv_browser a = Some ''vivaldi'' \<and> b = Vivaldi"
    and pl: "b = Vivaldi \<longrightarrow> platform e \<noteq> Win32" by auto
  from installExtension_rejects [OF pl assms(1)] command_chromium [OF b]
  show rej: "\<exists>err. fst (installExtensionCommand e a sys) = Rejected err
                \<and> (getProfiles_error e = None \<longrightarrow> (\<exists>d. err = DownloadFailed d))"
    by simp
  then show "fst (cli e (InstallExtension a) sys) = 1"
    by (auto simp: cli_exit_code)
next
  assume ff: "argv_browser a = Some ''firefox''
            \<and> new_Firefox e (installerOptions a) (firefox sys) = (Inr this, w)"
  with command_firefox [of a e sys]
  show res: "fst (installExtensionCommand e a sys) = Resolved" by simp
  then show "fst (cli e (InstallExtension a) sys) = 0" by (simp add: cli_exit_code)
next
  assume "\<not> isExtensionInstalled this ''smartlink-extension'' w
          \<or> truthy_flag (forceReinstall (ff_options this))"
  then show "fst (installExtensions e this [''smartlink-extension''] w)
             = [(''smartlink-extension'', False)]"
    using installExtensions_download_fails [OF assms(2), of this w] by simp
next
  show "fst (cli e (InstallExtension a) sys)
           = (case fst (installExtensionCommand e a sys) of Rejected err \<Rightarrow> 1 | Resolved \<Rightarrow> 0)"
    by (rule cli_exit_code)
qed

lemma example_argv_fields [simp]:
  "argv_browser (example_argv browser) = Some browser"
  by (simp add: example_argv_def)

lemma example_argv_options [simp]:
  "downloadDir (installerOptions (example_argv browser)) = None"
  "forceReinstall (installerOptions (example_argv browser)) = Some False"
  "profiles (installerOptions (example_argv browser)) = None"
  "config (installerOptions (example_argv browser)) = Some \<lparr>smartLinkUrl = None, secret = None\<rparr>"
  by (simp_all add: installerOptions_def example_argv_def)

lemma new_Firefox_example:
  "new_Firefox offline_env (installerOptions (example_argv ''firefox'')) example_firefox
   = (Inr \<lparr>ff_options = Firefox_options ''/tmp'' ''/home/user/.mozilla/firefox''
                          (installerOptions (example_argv ''firefox'')),
            profileDir = ''/home/user/.mozilla/firefox/x.default''\<rparr>,
      example_firefox
        \<lparr>ff_profiles :=
           [\<lparr> ff_name = ''default-release'', ff_path = ''/home/user/.mozilla/firefox/x.default'',
              ff_default = True, ff_extensions = Some Map.empty, extensions_json = None \<rparr>],
         ff_download_dir := Some Map.empty\<rparr>)"
  by (simp add: new_Firefox_def Let_def example_firefox_def Firefox_options_def
      findProfileDirectory_def getFirefoxProfiles_def default_profile_def at_path_def mkdir_extensions_def)

theorem download_failure_propagation_witness:
  "(\<exists>d. fst (installExtensionCommand offline_env (example_argv ''opera'') example_system)
          = Rejected (DownloadFailed d))
   \<and> fst (cli offline_env (InstallExtension (example_argv ''opera'')) example_system) = 1
   \<and> fst (cli offline_env (InstallExtension (example_argv ''vivaldi'')) example_system) = 1
   \<and> fst (cli (offline_env\<lparr>platform := Win32\<rparr>) (InstallExtension (example_argv ''opera''))
            example_system) = 1
   \<and> fst (installExtensionCommand offline_env (example_argv ''firefox'') example_system)
       = Resolved
   \<and> fst (cli offline_env (InstallExtension (example_argv ''firefox'')) example_system) = 0"
proof -
  have h1: "\<And>x. https_get offline_env ''hfkipjpbjnpdpaofpilegpmbbfhmoceb'' \<noteq> Body x"
    and h2: "\<And>x. https_get offline_env ''smartlink-extension'' \<noteq> Body x"
    and h3: "platform offline_env \<noteq> Win32"
    and h4: "getProfiles_error offline_env = None"
    by simp_all
  have w1: "\<And>x. https_get (offline_env\<lparr>platform := Win32\<rparr>) ''hfkipjpbjnpdpaofpilegpmbbfhmoceb''
              \<noteq> Body x"
    and w2: "\<And>x. https_get (offline_env\<lparr>platform := Win32\<rparr>) ''smartlink-extension'' \<noteq> Body x"
    by simp_all
  have ff: "firefox example_system = example_firefox" by (simp add: example_system_def)
  from download_failure_propagation [OF h1 h2, of "example_argv ''opera''" example_system] h4
  have opera: "(\<exists>d. fst (installExtensionCommand offline_env (example_argv ''opera'') example_system)
                    = Rejected (DownloadFailed d))
      \<and> fst (cli offline_env (InstallExtension (example_argv ''opera'')) example_system) = 1"
    by auto
  from download_failure_propagation [OF h1 h2, of "example_argv ''vivaldi''" example_system] h3
  have vivaldi: "fst (cli offline_env (InstallExtension (example_argv ''vivaldi'')) example_system) = 1"
    by simp
  from download_failure_propagation [OF w1 w2, of "example_argv ''opera''" example_system]
  have windows: "fst (cli (offline_env\<lparr>platform := Win32\<rparr>)
                         (InstallExtension (example_argv ''opera'')) example_system) = 1"
    by simp
  from download_failure_propagation [OF h1 h2, of "example_argv ''firefox''" example_system]
    new_Firefox_example
  have firefox: "fst (installExtensionCommand offline_env (example_argv ''firefox'') example_system)
                   = Resolved
      \<and> fst (cli offline_env (InstallExtension (example_argv ''firefox'')) example_system) = 0"
    by (simp add: ff)
  from opera vivaldi windows firefox show ?thesis by blast
qed

text \<open>
  The failing run of C4: \<open>install-extension --browser firefox\<close> on a Linux machine with one
  profile, the download answered with status 404. The result of \<open>installExtensions\<close>
  records the failure, the command resolves and the exit code is 0.
\<close>

theorem firefox_download_failure_exits_zero:
  "https_get offline_env ''smartlink-extension'' = BadStatus 404
   \<and> (case new_Firefox offline_env (installerOptions (example_argv ''firefox''))
             (firefox example_system) of
        (Inr this, w) \<Rightarrow>
          fst (installExtensions offline_env this [''smartlink-extension''] w)
            = [(''smartlink-extension'', False)]
      | (Inl err, w) \<Rightarrow> False)
   \<and> fst (installExtensionCommand offline_env (example_argv ''firefox'') example_system) = Resolved
   \<and> fst (cli offline_env (InstallExtension (example_argv ''firefox'')) example_system) = 0"
proof -
  have ff: "firefox example_system = example_firefox" by (simp add: example_system_def)
  have inst: "\<And>this w. \<not> isExtensionInstalled this ''smartlink-extension'' w
      \<Longrightarrow> fst (installExtensions offline_env this [''smartlink-extension''] w)
            = [(''smartlink-extension'', False)]"
  proof -
    fix this w assume n: "\<not> isExtensionInstalled this ''smartlink-extension'' w"
    have "fst (Firefox_installExtension offline_env this ''smartlink-extension'' w) = False"
      by (rule Firefox_installExtension_download_fails) (use n in simp_all)
    then show "fst (installExtensions offline_env this [''smartlink-extension''] w)
            = [(''smartlink-extension'', False)]"
      by (cases "Firefox_installExtension offline_env this ''smartlink-extension'' w") simp
  qed
  have res: "fst (installExtensionCommand offline_env (example_argv ''firefox'') example_system) = Resolved"
    using command_firefox [of "example_argv ''firefox''" offline_env example_system]
    by (simp add: ff new_Firefox_example)
  then have zero:
    "fst (cli offline_env (InstallExtension (example_argv ''firefox'')) example_system) = 0"
    by (simp add: cli_exit_code)
  have "\<not> isExtensionInstalled
           \<lparr>ff_options = Firefox_options ''/tmp'' ''/home/user/.mozilla/firefox''
                          (installerOptions (example_argv ''firefox'')),
            profileDir = ''/home/user/.mozilla/firefox/x.default''\<rparr>
           ''smartlink-extension''
           (example_firefox
             \<lparr>ff_profiles :=
                [\<lparr> ff_name = ''default-release'',
                   ff_path = ''/home/user/.mozilla/firefox/x.default'',
                   ff_default = True, ff_extensions = Some Map.empty, extensions_json = None \<rparr>],
              ff_download_dir := Some Map.empty\<rparr>)"
    by (simp add: isExtensionInstalled_def profile_at_def read_file_def)
  from inst [OF this] res zero show ?thesis
    by (simp add: ff new_Firefox_example)
qed

section \<open>The configuration URL of the Firefox installer\<close>


lemma new_Firefox_linux:
  assumes "platform e = Linux" "tmpdir e = ''/tmp''" "firefox_profiles_dir e = ''/home/user/.mozilla/firefox''"
  shows "new_Firefox e (installerOptions (example_argv ''firefox'')) example_firefox
   = (Inr \<lparr>ff_options = Firefox_options ''/tmp'' ''/home/user/.mozilla/firefox''
                          (installerOptions (example_argv ''firefox'')),
            profileDir = ''/home/user/.mozilla/firefox/x.default''\<rparr>,
      example_firefox
        \<lparr>ff_profiles :=
           [\<lparr> ff_name = ''default-release'', ff_path = ''/home/user/.mozilla/firefox/x.default'',
              ff_default = True, ff_extensions = Some Map.empty, extensions_json = None \<rparr>],
         ff_download_dir := Some Map.empty\<rparr>)"
  using assms
  by (simp add: new_Firefox_def Let_def example_firefox_def Firefox_options_def
      findProfileDirectory_def getFirefoxProfiles_def default_profile_def at_path_def mkdir_extensions_def)

lemma gecko_id_example: "gecko_id example_manifest = Inr None"
  by (simp add: gecko_id_def example_manifest_def andThen_def js_get_chain_def Let_def)

lemma Firefox_options_fields [simp]:
  "downloadDir (Firefox_options tmp d options) = Some (case downloadDir options of Some x \<Rightarrow> x | None \<Rightarrow> tmp @ ''/firefox-extensions'')"
  "forceReinstall (Firefox_options tmp d options) = Some (case forceReinstall options of Some b \<Rightarrow> b | None \<Rightarrow> False)"
  "profiles (Firefox_options tmp d options) = profiles options"
  "config (Firefox_options tmp d options) = config options"
  by (simp_all add: Firefox_options_def)

text \<open>
  C7. The claim lets no installer open the browser on a configuration URL unless both
  the URL and the secret were supplied. The command for \<open>firefox\<close> with neither of them
  (the configuration the command builds is then an object with two undefined fields,
  which passes \<open>if (!configParams) return\<close>): the browser is opened on
  \<open>undefined/#SmartLinkExtensionSecret=undefined\<close> for the profile.
\<close>

theorem Firefox_relaunch_without_configuration:
  "argv_smartLinkUrl (example_argv ''firefox'') = None
   \<and> argv_secret (example_argv ''firefox'') = None
   \<and> \<not> config_supplied (installerOptions (example_argv ''firefox''))
   \<and> ff_launched (firefox (snd (installExtensionCommand example_env (example_argv ''firefox'')
                                   example_system)))
       = [(''default-release'', ''undefined/#SmartLinkExtensionSecret=undefined'')]"
proof -
  let ?inst = "\<lparr>ff_options = Firefox_options ''/tmp'' ''/home/user/.mozilla/firefox''
                          (installerOptions (example_argv ''firefox'')),
            profileDir = ''/home/user/.mozilla/firefox/x.default''\<rparr>"
  let ?q = "\<lparr> ff_name = ''default-release'', ff_path = ''/home/user/.mozilla/firefox/x.default'',
              ff_default = True, ff_extensions = Some Map.empty, extensions_json = None \<rparr>"
  let ?w = "example_firefox \<lparr>ff_profiles := [?q], ff_download_dir := Some Map.empty\<rparr>"
  have ff: "firefox example_system = example_firefox" by (simp add: example_system_def)
  have new: "new_Firefox example_env (installerOptions (example_argv ''firefox'')) example_firefox
             = (Inr ?inst, ?w)"
    by (rule new_Firefox_linux) simp_all
  have notyet: "\<not> isExtensionInstalled ?inst ''smartlink-extension'' ?w"
    by (simp add: isExtensionInstalled_def profile_at_def read_file_def)
  have dl: "Firefox_downloadExtension example_env ?inst ''smartlink-extension'' ?w
            = (Inr ''smartlink-extension.xpi'',
               ?w\<lparr>ff_download_dir := Some [''smartlink-extension.xpi'' \<mapsto> example_zip]\<rparr>)"
    by (simp add: Firefox_downloadExtension_def getExtensionFilename_def Let_def)
  have opened: "\<And>ident. snd (installXpi_profile example_env ?inst example_manifest ident example_zip ?q [])
        = [(''default-release'', ''undefined/#SmartLinkExtensionSecret=undefined'')]"
    by (simp add: installXpi_profile_def Let_def configUrl_def)
  have xpi: "ff_launched (snd (installXpi example_env ?inst ''smartlink-extension.xpi''
               (?w\<lparr>ff_download_dir := Some [''smartlink-extension.xpi'' \<mapsto> example_zip]\<rparr>)))
             = [(''default-release'', ''undefined/#SmartLinkExtensionSecret=undefined'')]
           \<and> fst (installXpi example_env ?inst ''smartlink-extension.xpi''
               (?w\<lparr>ff_download_dir := Some [''smartlink-extension.xpi'' \<mapsto> example_zip]\<rparr>)) = Inr ()"
    by (simp add: installXpi_def getFirefoxProfiles_def read_file_def gecko_id_example Let_def example_firefox_def
        case_prod_beta opened)
  have run: "ff_launched (snd (Firefox_installExtension example_env ?inst ''smartlink-extension'' ?w))
             = [(''default-release'', ''undefined/#SmartLinkExtensionSecret=undefined'')]"
    using notyet dl xpi
    by (simp add: Firefox_installExtension_def case_prod_beta split: sum.splits)
  have "ff_launched (firefox (snd (installExtensionCommand example_env (example_argv ''firefox'')
                                   example_system)))
       = [(''default-release'', ''undefined/#SmartLinkExtensionSecret=undefined'')]"
    using run
    by (simp add: installExtensionCommand_def Let_def ff new case_prod_beta)
  then show ?thesis
    by (simp add: config_supplied_def installerOptions_def example_argv_def)
qed

section \<open>The loop body on one profile\<close>


lemma mkdir_extensionsDir_fields [simp]:
  "preferenceFile (mkdir_extensionsDir p ext) = preferenceFile p"
  "basename (mkdir_extensionsDir p ext) = basename p"
  "Extensions (mkdir_extensionsDir p ext) ext \<noteq> None"
  by (auto simp: mkdir_extensionsDir_def split: option.splits)

lemma mkdir_extensionsDir_ex [simp]:
  "\<exists>versions. Extensions (mkdir_extensionsDir p ext) ext = Some versions"
  by (auto simp: mkdir_extensionsDir_def split: option.splits)


lemma version_dir_mkdir [simp]:
  "version_dir (mkdir_extensionsDir p ext) ext v = version_dir p ext v"
  by (auto simp: mkdir_extensionsDir_def version_dir_def split: option.splits)


lemma put_version_dir_fields [simp]:
  "preferenceFile (put_version_dir p ext v files) = preferenceFile p"
  "basename (put_version_dir p ext v files) = basename p"
  by (auto simp: put_version_dir_def split: option.splits)


lemma version_dir_update_prefs [simp]:
  "version_dir (p\<lparr>preferenceFile := c\<rparr>) ext v = version_dir p ext v"
  by (simp add: version_dir_def)

lemma relaunch_launched:
  "launched (relaunch_with_config options name s)
   = launched s @ (if config_supplied options then [(name, configUrl (the (config options)))] else [])"
  by (auto simp: relaunch_with_config_def config_supplied_def split: option.splits)

lemma relaunch_download_dir [simp]:
  "download_dir (relaunch_with_config options name s) = download_dir s"
  by (auto simp: relaunch_with_config_def split: option.splits)




lemma bare_profile_fields [simp]: "preferenceFile bare_profile = None"
  "Extensions bare_profile = Map.empty"
  by (simp_all add: bare_profile_def)













lemma empty_profile_fields [simp]:
  "preferenceFile empty_profile = Some empty_object_text"
  "Extensions empty_profile = Map.empty"
  "basename empty_profile = ''Default''"
  by (simp_all add: empty_profile_def)



section \<open>The frame of the read-modify-write of the preferences\<close>


lemma Vivaldi_profile_frame:
  assumes "preferenceFile p = Some content" "json_parse e content = Some preferences"
    and "Vivaldi_profile e options extensionId manifest p s = (fl, p', s')"
  shows "preferenceFile p' = Some content
       \<or> (\<exists>preferences'. preferenceFile p' = Some (json_stringify e preferences')
             \<and> unrelated_preserved extensionId preferences preferences')"
proof (cases "manifest_versionFormatted manifest")
  case (Inl err)
  with assms show ?thesis by (auto simp: Vivaldi_profile_def Let_def)
next
  case (Inr v)
  show ?thesis
  proof (cases "Vivaldi_patch (truthy_flag (pinExtension options)) extensionId manifest v (now e) preferences")
    case patched: (Inr preferences')
    then have "unrelated_preserved extensionId preferences preferences'"
      by (rule Vivaldi_patch_frame)
    with assms Inr patched show ?thesis
      by (auto simp: Vivaldi_profile_def Let_def
          split: prod.splits flow.splits option.splits bool.splits)
  next
    case (Inl err)
    with assms Inr show ?thesis
      by (auto simp: Vivaldi_profile_def Let_def
          split: prod.splits flow.splits option.splits bool.splits)
  qed
qed

lemma Opera_profile_frame:
  assumes "preferenceFile p = Some content" "json_parse e content = Some preferences"
    and "Opera_profile e options extensionId manifest p s = (fl, p', s')"
  shows "preferenceFile p' = Some content
       \<or> (\<exists>preferences'. preferenceFile p' = Some (json_stringify e preferences')
             \<and> unrelated_preserved extensionId preferences preferences')"
proof (cases "manifest_versionFormatted manifest")
  case (Inl err)
  with assms show ?thesis by (auto simp: Opera_profile_def Let_def)
next
  case (Inr v)
  show ?thesis
  proof (cases "Opera_patch (truthy_flag (pinExtension options)) extensionId manifest v (now e) preferences")
    case patched: (Inr preferences')
    then have "unrelated_preserved extensionId preferences preferences'"
      by (rule Opera_patch_frame)
    with assms Inr patched show ?thesis
      by (auto simp: Opera_profile_def Let_def
          split: prod.splits flow.splits option.splits bool.splits)
  next
    case (Inl err)
    with assms Inr show ?thesis
      by (auto simp: Opera_profile_def Let_def
          split: prod.splits flow.splits option.splits bool.splits)
  qed
qed

text \<open>
  C6. The loop body of \<open>Vivaldi\<close> or \<open>Opera\<close> on a profile whose \<open>Preferences\<close> file parses:
  afterwards the file is either the very bytes it was, or the serialisation of a
  document in which everything unrelated to the extension is preserved: every
  top-level key other than \<open>extensions\<close> has the value it had and no key is lost; in the
  \<open>extensions\<close> object every key the installers do not write has the value it had and
  no key is lost; every entry of an object below \<open>extensions\<close> that is keyed by another
  identifier is still there with its value; and the lists \<open>known_enabled\<close> and
  \<open>pinned_extensions\<close> have only grown at their end.
\<close>

theorem preferences_patching_frame:
  assumes "preferenceFile p = Some content"
    and "json_parse e content = Some preferences"
    and "profile_body b e options extensionId manifest p s = (fl, p', s')"
  shows "preferenceFile p' = Some content
       \<or> (\<exists>preferences'. preferenceFile p' = Some (json_stringify e preferences')
             \<and> unrelated_preserved extensionId preferences preferences')"
proof (cases b)
  case Vivaldi
  with assms(3) have "Vivaldi_profile e options extensionId manifest p s = (fl, p', s')"
    by (simp add: profile_body_def)
  with assms(1,2) show ?thesis by (rule Vivaldi_profile_frame)
next
  case Opera
  with assms(3) have "Opera_profile e options extensionId manifest p s = (fl, p', s')"
    by (simp add: profile_body_def)
  with assms(1,2) show ?thesis by (rule Opera_profile_frame)
qed


lemma busy_profile_fields [simp]:
  "preferenceFile busy_profile = Some busy_text"
  "Extensions busy_profile = Map.empty"
  "basename busy_profile = ''Profile 3''"
  by (simp_all add: busy_profile_def)

lemma Vivaldi_patch_busy:
  "\<exists>prefs'. Vivaldi_patch False ''abc'' example_manifest ''1_0_0_0'' t busy_preferences = Inr prefs'
     \<and> lookup prefs' ''homepage'' = Some (JStr ''https://example.org'')
     \<and> json_path prefs' [''extensions'', ''settings'', ''other''] = Some (JObj [])
     \<and> json_path prefs' [''extensions'', ''settings'', ''abc'', ''path''] = Some (JStr ''abc/1_0_0_0'')
     \<and> json_path prefs' [''extensions'', ''known_enabled''] = Some (JArr [JStr ''other'', JStr ''abc''])"
  by (simp add: Vivaldi_patch_def ensure_def andThen_def settings_entry_def example_manifest_def
      register_extension_def register_in_def push_if_absent_def busy_preferences_def)

theorem preferences_patching_frame_witness:
  "preferenceFile busy_profile = Some busy_text
   \<and> json_parse example_env busy_text = Some busy_preferences
   \<and> (\<exists>fl p' s' written.
         profile_body Vivaldi example_env example_options ''abc'' example_manifest busy_profile
           downloaded = (fl, p', s')
         \<and> preferenceFile p' = Some (example_stringify written)
         \<and> lookup written ''homepage'' = Some (JStr ''https://example.org'')
         \<and> json_path written [''extensions'', ''settings'', ''other''] = Some (JObj [])
         \<and> json_path written [''extensions'', ''settings'', ''abc'', ''path'']
             = Some (JStr ''abc/1_0_0_0'')
         \<and> (preferenceFile p' = Some busy_text
            \<or> (\<exists>preferences'. preferenceFile p' = Some (json_stringify example_env preferences')
                  \<and> unrelated_preserved ''abc'' busy_preferences preferences')))"
proof -
  have h1: "preferenceFile busy_profile = Some busy_text" by simp
  have h2: "json_parse example_env busy_text = Some busy_preferences" by simp
  obtain written where
    w: "Vivaldi_patch False ''abc'' example_manifest ''1_0_0_0'' 1700000000000 busy_preferences
          = Inr written"
    and w1: "lookup written ''homepage'' = Some (JStr ''https://example.org'')"
    and w2: "json_path written [''extensions'', ''settings'', ''other''] = Some (JObj [])"
    and w3: "json_path written [''extensions'', ''settings'', ''abc'', ''path'']
             = Some (JStr ''abc/1_0_0_0'')"
    using Vivaldi_patch_busy by blast
  have step: "profile_body Vivaldi example_env example_options ''abc'' example_manifest
                busy_profile downloaded
     = (Next,
        busy_profile\<lparr>Extensions := [''abc'' \<mapsto> [''1_0_0_0'' \<mapsto> example_files]],
                     preferenceFile := Some (example_stringify written)\<rparr>,
        downloaded\<lparr>download_dir :=
          Some [''abc.crx'' \<mapsto> example_crx, ''extension.zip'' \<mapsto> example_zip]\<rparr>)"
    by (simp add: profile_body_def Vivaldi_profile_def Let_def mkdir_extensionsDir_def
        version_dir_def put_version_dir_def w relaunch_with_config_def)
  let ?p' = "busy_profile\<lparr>Extensions := [''abc'' \<mapsto> [''1_0_0_0'' \<mapsto> example_files]],
                     preferenceFile := Some (example_stringify written)\<rparr>"
  have frame: "preferenceFile ?p' = Some busy_text
            \<or> (\<exists>preferences'. preferenceFile ?p' = Some (json_stringify example_env preferences')
                  \<and> unrelated_preserved ''abc'' busy_preferences preferences')"
    using preferences_patching_frame [OF h1 h2 step] .
  have stored: "preferenceFile ?p' = Some (example_stringify written)" by simp
  from h1 h2 step stored w1 w2 w3 frame show ?thesis by blast
qed

section \<open>Properties of the version-coded directory name\<close>

lemma restore_replace_dots:
  "CHR ''_'' \<notin> set v \<Longrightarrow> restore_dots (replace_dots v) = v"
  by (induction v) auto

lemma length_replace_dots: "length (replace_dots v) = length v"
  by (induction v) auto

lemma replace_dots_nth:
  "i < length v \<Longrightarrow> replace_dots v ! i = (if v ! i = CHR ''.'' then CHR ''_'' else v ! i)"
  by (induction v arbitrary: i) (auto simp: nth_Cons split: nat.splits)

lemma version_of_directory_versionFormatted:
  "CHR ''_'' \<notin> set v \<Longrightarrow> version_of_directory (versionFormatted v) = Some v"
  by (simp add: version_of_directory_def versionFormatted_def restore_replace_dots
      length_replace_dots suffix_def)

lemma restore_dots_no_underscore: "CHR ''_'' \<notin> set (restore_dots s)"
  by (induction s) auto

lemma restore_replace_dots_iff:
  "restore_dots (replace_dots v) = v \<longleftrightarrow> CHR ''_'' \<notin> set v"
proof
  assume "restore_dots (replace_dots v) = v"
  with restore_dots_no_underscore [of "replace_dots v"] show "CHR ''_'' \<notin> set v" by simp
next
  assume "CHR ''_'' \<notin> set v"
  then show "restore_dots (replace_dots v) = v" by (rule restore_replace_dots)
qed

lemma version_of_directory_versionFormatted_eq:
  "version_of_directory (versionFormatted v) = Some (restore_dots (replace_dots v))"
  by (simp add: version_of_directory_def versionFormatted_def length_replace_dots suffix_def)

text \<open>
  C8, with the domain on which the name can be read back. The directory name of a
  version is the version with every dot replaced by an underscore, followed by \<open>_0\<close>.
  For every string: the name is defined, a manifest whose \<open>version\<close> is that string gets
  it, it has the length of the version plus two, it ends with \<open>_0\<close>, it agrees with the
  version at every position that holds no dot, and \<open>1.2.3\<close> gives \<open>1_2_3_0\<close>. Reading the
  name back (the suffix dropped, every underscore a dot again) gives the version
  exactly when the version holds no underscore, and two versions without an underscore
  that have one directory name are equal.
\<close>

theorem versionFormatted_reversible:
  "versionFormatted ''1.2.3'' = ''1_2_3_0''
   \<and> manifest_versionFormatted (JObj [(''version'', JStr v)]) = Inr (versionFormatted v)
   \<and> length (versionFormatted v) = length v + 2
   \<and> drop (length v) (versionFormatted v) = ''_0''
   \<and> (\<forall>i < length v.
         versionFormatted v ! i = (if v ! i = CHR ''.'' then CHR ''_'' else v ! i))
   \<and> (version_of_directory (versionFormatted v) = Some v \<longleftrightarrow> CHR ''_'' \<notin> set v)
   \<and> (CHR ''_'' \<notin> set v \<and> CHR ''_'' \<notin> set w \<and> versionFormatted w = versionFormatted v
        \<longrightarrow> w = v)"
proof -
  have example: "versionFormatted ''1.2.3'' = ''1_2_3_0''"
    by (simp add: versionFormatted_def)
  have manifest:
    "manifest_versionFormatted (JObj [(''version'', JStr v)]) = Inr (versionFormatted v)"
    by (simp add: manifest_versionFormatted_def andThen_def)
  have len: "length (versionFormatted v) = length v + 2"
    by (simp add: versionFormatted_def length_replace_dots)
  have tail: "drop (length v) (versionFormatted v) = ''_0''"
    by (simp add: versionFormatted_def length_replace_dots)
  have pointwise: "\<forall>i < length v.
      versionFormatted v ! i = (if v ! i = CHR ''.'' then CHR ''_'' else v ! i)"
    by (simp add: versionFormatted_def nth_append length_replace_dots replace_dots_nth)
  have readback: "version_of_directory (versionFormatted v) = Some v \<longleftrightarrow> CHR ''_'' \<notin> set v"
    by (simp add: version_of_directory_versionFormatted_eq restore_replace_dots_iff)
  have inj: "CHR ''_'' \<notin> set v \<and> CHR ''_'' \<notin> set w \<and> versionFormatted w = versionFormatted v
        \<longrightarrow> w = v"
  proof
    assume h: "CHR ''_'' \<notin> set v \<and> CHR ''_'' \<notin> set w \<and> versionFormatted w = versionFormatted v"
    from h have rw: "version_of_directory (versionFormatted w) = Some w"
      by (intro version_of_directory_versionFormatted) simp
    from h have rv: "version_of_directory (versionFormatted v) = Some v"
      by (intro version_of_directory_versionFormatted) simp
    from h rw have "version_of_directory (versionFormatted v) = Some w" by metis
    with rv show "w = v" by simp
  qed
  from example manifest len tail pointwise readback inj show ?thesis by blast
qed

theorem versionFormatted_reversible_witness:
  "versionFormatted ''1.0.0'' = ''1_0_0_0''
   \<and> versionFormatted ''1.0.0'' ! 1 = CHR ''_''
   \<and> version_of_directory ''1_0_0_0'' = Some ''1.0.0''
   \<and> versionFormatted ''1.0.1'' \<noteq> versionFormatted ''1.0.0''"
proof -
  have h: "CHR ''_'' \<notin> set ''1.0.0''" "CHR ''_'' \<notin> set ''1.0.1''" "''1.0.1'' \<noteq> ''1.0.0''"
    by simp_all
  have name: "versionFormatted ''1.0.0'' = ''1_0_0_0''" by (simp add: versionFormatted_def)
  from versionFormatted_reversible [of "''1.0.0''" "''1.0.1''"] h
  have "versionFormatted ''1.0.0'' ! 1 = CHR ''_''"
    and "version_of_directory (versionFormatted ''1.0.0'') = Some ''1.0.0''"
    and "versionFormatted ''1.0.1'' \<noteq> versionFormatted ''1.0.0''"
    by auto
  with name show ?thesis by simp
qed

text \<open>
  C8 as stated fails on a version that holds an underscore: \<open>manifest.version\<close> is not
  validated, \<open>1_2\<close> and \<open>1.2\<close> get the same directory name, and reading the name of \<open>1_2\<close>
  back gives \<open>1.2\<close>.
\<close>

theorem versionFormatted_underscore_collision:
  "manifest_versionFormatted (JObj [(''version'', JStr ''1_2'')]) = Inr ''1_2_0''
   \<and> manifest_versionFormatted (JObj [(''version'', JStr ''1.2'')]) = Inr ''1_2_0''
   \<and> versionFormatted ''1_2'' = versionFormatted ''1.2''
   \<and> ''1_2'' \<noteq> ''1.2''
   \<and> version_of_directory (versionFormatted ''1_2'') = Some ''1.2''"
  by (simp add: manifest_versionFormatted_def andThen_def versionFormatted_def
      version_of_directory_def suffix_def)

section \<open>Properties of the option defaults\<close>

lemma new_Firefox_options:
  assumes "new_Firefox e options w = (Inr this, w')"
  shows "ff_options this = Firefox_options (tmpdir e) (firefox_profiles_dir e) options"
  using assms
  by (auto simp: new_Firefox_def Let_def split: if_splits sum.splits)

lemma new_Firefox_constructs:
  assumes "platform e = Linux"
  shows "\<exists>this w'. new_Firefox e options example_firefox = (Inr this, w')"
  using assms
  by (simp add: new_Firefox_def Let_def example_firefox_def findProfileDirectory_def
      getFirefoxProfiles_def default_profile_def)

lemma browser_of_argv:
  assumes "argv_browser a = Some name"
  shows "toLowerCase (if truthy_str (argv_browser a) then the (argv_browser a) else ''chrome'')
         = (if name = [] then ''chrome'' else toLowerCase name)"
  using assms by (simp add: toLowerCase_def)

lemma command_vivaldi_run:
  assumes "argv_browser a = Some ''vivaldi''"
  shows "installExtensionCommand e a sys
         = (case new_Vivaldi e (installerOptions a) (vivaldi sys) of
              (this_options, w) \<Rightarrow>
                (case Vivaldi_installExtension e this_options
                        ''hfkipjpbjnpdpaofpilegpmbbfhmoceb'' w of
                   (r, w') \<Rightarrow> (r, sys\<lparr>vivaldi := w'\<rparr>)))"
  by (simp add: installExtensionCommand_def Let_def browser_of_argv [OF assms])

lemma command_opera_run:
  assumes "argv_browser a = Some ''opera''"
  shows "installExtensionCommand e a sys
         = (case new_Opera e (installerOptions a) (opera sys) of
              (this_options, w) \<Rightarrow>
                (case Opera_installExtension e this_options
                        ''hfkipjpbjnpdpaofpilegpmbbfhmoceb'' w of
                   (r, w') \<Rightarrow> (r, sys\<lparr>opera := w'\<rparr>)))"
  by (simp add: installExtensionCommand_def Let_def browser_of_argv [OF assms])

lemma command_firefox_run:
  assumes "argv_browser a = Some ''firefox''"
  shows "installExtensionCommand e a sys
         = (case new_Firefox e (installerOptions a) (firefox sys) of
              (Inl err, w) \<Rightarrow> (Rejected err, sys\<lparr>firefox := w\<rparr>)
            | (Inr this, w) \<Rightarrow>
                (Resolved,
                 sys\<lparr>firefox := snd (installExtensions e this [''smartlink-extension''] w)\<rparr>))"
  by (simp add: installExtensionCommand_def Let_def browser_of_argv [OF assms] case_prod_beta
      split: sum.splits)

text \<open>
  C10. \<open>installExtensionCommand\<close> called with \<open>forceReinstall\<close> undefined builds options with
  \<open>forceReinstall = true\<close> (a value that is given is kept), constructs the installer of the
  browser from these options and runs it, and each installer so constructed (\<open>Vivaldi\<close>,
  \<open>Opera\<close>, \<open>FirefoxExtensionInstaller\<close>) stores \<open>true\<close>: a constructor keeps the value it is
  handed. The same constructors, given options with \<open>forceReinstall\<close> undefined, store
  \<open>false\<close>: the default depends on the entry point.
\<close>

theorem forceReinstall_defaults:
  assumes "argv_forceReinstall a = None"
  shows "forceReinstall (installerOptions a) = Some True
   \<and> forceReinstall (installerOptions (a\<lparr>argv_forceReinstall := Some b\<rparr>)) = Some b
   \<and> (argv_browser a = Some ''vivaldi''
        \<longrightarrow> installExtensionCommand e a sys
            = (case new_Vivaldi e (installerOptions a) (vivaldi sys) of
                 (this_options, w) \<Rightarrow>
                   (case Vivaldi_installExtension e this_options
                           ''hfkipjpbjnpdpaofpilegpmbbfhmoceb'' w of
                      (r, w') \<Rightarrow> (r, sys\<lparr>vivaldi := w'\<rparr>))))
   \<and> (argv_browser a = Some ''opera''
        \<longrightarrow> installExtensionCommand e a sys
            = (case new_Opera e (installerOptions a) (opera sys) of
                 (this_options, w) \<Rightarrow>
                   (case Opera_installExtension e this_options
                           ''hfkipjpbjnpdpaofpilegpmbbfhmoceb'' w of
                      (r, w') \<Rightarrow> (r, sys\<lparr>opera := w'\<rparr>))))
   \<and> (argv_browser a = Some ''firefox''
        \<longrightarrow> installExtensionCommand e a sys
            = (case new_Firefox e (installerOptions a) (firefox sys) of
                 (Inl err, w) \<Rightarrow> (Rejected err, sys\<lparr>firefox := w\<rparr>)
               | (Inr this, w) \<Rightarrow>
                   (Resolved,
                    sys\<lparr>firefox :=
                          snd (installExtensions e this [''smartlink-extension''] w)\<rparr>)))
   \<and> forceReinstall (fst (new_Vivaldi e (installerOptions a) w1)) = Some True
   \<and> forceReinstall (fst (new_Opera e (installerOptions a) w2)) = Some True
   \<and> (new_Firefox e (installerOptions a) w3 = (Inr this, w4)
        \<longrightarrow> forceReinstall (ff_options this) = Some True)
   \<and> forceReinstall (Vivaldi_options tmp (installerOptions a)) = Some True
   \<and> forceReinstall (Opera_options tmp (installerOptions a)) = Some True
   \<and> forceReinstall (Firefox_options tmp dir (installerOptions a)) = Some True
   \<and> forceReinstall (Vivaldi_options tmp (options\<lparr>forceReinstall := Some b\<rparr>)) = Some b
   \<and> forceReinstall (Opera_options tmp (options\<lparr>forceReinstall := Some b\<rparr>)) = Some b
   \<and> forceReinstall (Firefox_options tmp dir (options\<lparr>forceReinstall := Some b\<rparr>)) = Some b
   \<and> forceReinstall (Vivaldi_options tmp (options\<lparr>forceReinstall := None\<rparr>)) = Some False
   \<and> forceReinstall (Opera_options tmp (options\<lparr>forceReinstall := None\<rparr>)) = Some False
   \<and> forceReinstall (Firefox_options tmp dir (options\<lparr>forceReinstall := None\<rparr>)) = Some False
   \<and> forceReinstall (fst (new_Vivaldi e (options\<lparr>forceReinstall := None\<rparr>) w1)) = Some False
   \<and> forceReinstall (fst (new_Opera e (options\<lparr>forceReinstall := None\<rparr>) w2)) = Some False
   \<and> (new_Firefox e (options\<lparr>forceReinstall := None\<rparr>) w3 = (Inr that, w5)
        \<longrightarrow> forceReinstall (ff_options that) = Some False)"
proof -
  have command: "forceReinstall (installerOptions a) = Some True"
    using assms by (simp add: installerOptions_def)
  have given: "forceReinstall (installerOptions (a\<lparr>argv_forceReinstall := Some b\<rparr>)) = Some b"
    by (simp add: installerOptions_def)
  have kept: "\<And>tmp dir opts.
      forceReinstall (Vivaldi_options tmp opts)
        = Some (case forceReinstall opts of Some b \<Rightarrow> b | None \<Rightarrow> False)
      \<and> forceReinstall (Opera_options tmp opts)
        = Some (case forceReinstall opts of Some b \<Rightarrow> b | None \<Rightarrow> False)
      \<and> forceReinstall (Firefox_options tmp dir opts)
        = Some (case forceReinstall opts of Some b \<Rightarrow> b | None \<Rightarrow> False)"
    by (simp add: Vivaldi_options_def Opera_options_def Firefox_options_def)
  have constructed: "\<And>opts. fst (new_Vivaldi e opts w1) = Vivaldi_options (tmpdir e) opts
      \<and> fst (new_Opera e opts w2) = Opera_options (tmpdir e) opts"
    by (simp add: new_Vivaldi_def new_Opera_def Let_def)
  have firefox: "\<And>opts x y. new_Firefox e opts w3 = (Inr x, y)
      \<Longrightarrow> forceReinstall (ff_options x)
            = Some (case forceReinstall opts of Some b \<Rightarrow> b | None \<Rightarrow> False)"
    by (simp add: new_Firefox_options kept)
  have runs:
    "argv_browser a = Some ''vivaldi''
        \<longrightarrow> installExtensionCommand e a sys
            = (case new_Vivaldi e (installerOptions a) (vivaldi sys) of
                 (this_options, w) \<Rightarrow>
                   (case Vivaldi_installExtension e this_options
                           ''hfkipjpbjnpdpaofpilegpmbbfhmoceb'' w of
                      (r, w') \<Rightarrow> (r, sys\<lparr>vivaldi := w'\<rparr>)))"
    "argv_browser a = Some ''opera''
        \<longrightarrow> installExtensionCommand e a sys
            = (case new_Opera e (installerOptions a) (opera sys) of
                 (this_options, w) \<Rightarrow>
                   (case Opera_installExtension e this_options
                           ''hfkipjpbjnpdpaofpilegpmbbfhmoceb'' w of
                      (r, w') \<Rightarrow> (r, sys\<lparr>opera := w'\<rparr>)))"
    "argv_browser a = Some ''firefox''
        \<longrightarrow> installExtensionCommand e a sys
            = (case new_Firefox e (installerOptions a) (firefox sys) of
                 (Inl err, w) \<Rightarrow> (Rejected err, sys\<lparr>firefox := w\<rparr>)
               | (Inr this, w) \<Rightarrow>
                   (Resolved,
                    sys\<lparr>firefox :=
                          snd (installExtensions e this [''smartlink-extension''] w)\<rparr>))"
    using command_vivaldi_run [of a e sys] command_opera_run [of a e sys]
      command_firefox_run [of a e sys]
    by blast+
  have stored: "forceReinstall (fst (new_Vivaldi e (installerOptions a) w1)) = Some True
      \<and> forceReinstall (fst (new_Opera e (installerOptions a) w2)) = Some True
      \<and> (new_Firefox e (installerOptions a) w3 = (Inr this, w4)
           \<longrightarrow> forceReinstall (ff_options this) = Some True)
      \<and> forceReinstall (Vivaldi_options tmp (installerOptions a)) = Some True
      \<and> forceReinstall (Opera_options tmp (installerOptions a)) = Some True
      \<and> forceReinstall (Firefox_options tmp dir (installerOptions a)) = Some True"
    using command firefox [of "installerOptions a" this w4] by (simp add: kept constructed)
  have defaults:
    "forceReinstall (Vivaldi_options tmp (options\<lparr>forceReinstall := Some b\<rparr>)) = Some b
     \<and> forceReinstall (Opera_options tmp (options\<lparr>forceReinstall := Some b\<rparr>)) = Some b
     \<and> forceReinstall (Firefox_options tmp dir (options\<lparr>forceReinstall := Some b\<rparr>)) = Some b
     \<and> forceReinstall (Vivaldi_options tmp (options\<lparr>forceReinstall := None\<rparr>)) = Some False
     \<and> forceReinstall (Opera_options tmp (options\<lparr>forceReinstall := None\<rparr>)) = Some False
     \<and> forceReinstall (Firefox_options tmp dir (options\<lparr>forceReinstall := None\<rparr>)) = Some False
     \<and> forceReinstall (fst (new_Vivaldi e (options\<lparr>forceReinstall := None\<rparr>) w1)) = Some False
     \<and> forceReinstall (fst (new_Opera e (options\<lparr>forceReinstall := None\<rparr>) w2)) = Some False
     \<and> (new_Firefox e (options\<lparr>forceReinstall := None\<rparr>) w3 = (Inr that, w5)
          \<longrightarrow> forceReinstall (ff_options that) = Some False)"
    using firefox [of "options\<lparr>forceReinstall := None\<rparr>" that w5] by (simp add: kept constructed)
  from command given runs stored defaults show ?thesis by blast
qed

theorem forceReinstall_defaults_witness:
  "argv_forceReinstall ((example_argv ''firefox'')\<lparr>argv_forceReinstall := None\<rparr>) = None
   \<and> (\<exists>this w. new_Firefox example_env
               (installerOptions ((example_argv ''firefox'')\<lparr>argv_forceReinstall := None\<rparr>))
               example_firefox = (Inr this, w)
            \<and> forceReinstall (ff_options this) = Some True
            \<and> installExtensionCommand example_env
                 ((example_argv ''firefox'')\<lparr>argv_forceReinstall := None\<rparr>) example_system
               = (Resolved,
                  example_system
                    \<lparr>firefox :=
                       snd (installExtensions example_env this [''smartlink-extension''] w)\<rparr>))
   \<and> (\<exists>this w. new_Firefox example_env (example_options\<lparr>forceReinstall := None\<rparr>)
               example_firefox = (Inr this, w)
            \<and> forceReinstall (ff_options this) = Some False)
   \<and> forceReinstall
       (fst (new_Opera example_env
               (installerOptions ((example_argv ''firefox'')\<lparr>argv_forceReinstall := None\<rparr>))
               (opera example_system))) = Some True
   \<and> forceReinstall
       (fst (new_Opera example_env (example_options\<lparr>forceReinstall := None\<rparr>)
               (opera example_system))) = Some False"
proof -
  let ?a = "(example_argv ''firefox'')\<lparr>argv_forceReinstall := None\<rparr>"
  have undefined_flag: "argv_forceReinstall ?a = None" by simp
  have browser: "argv_browser ?a = Some ''firefox''" by simp
  have ff: "firefox example_system = example_firefox" by (simp add: example_system_def)
  have linux: "platform example_env = Linux" by simp
  obtain x wx where x: "new_Firefox example_env (installerOptions ?a) example_firefox = (Inr x, wx)"
    using new_Firefox_constructs [OF linux] by blast
  obtain y wy where y: "new_Firefox example_env (example_options\<lparr>forceReinstall := None\<rparr>)
      example_firefox = (Inr y, wy)"
    using new_Firefox_constructs [OF linux] by blast
  note inst = forceReinstall_defaults [OF undefined_flag,
      where e = example_env and sys = example_system and ?w2.0 = "opera example_system"
        and ?w3.0 = example_firefox and this = x and ?w4.0 = wx
        and options = example_options and that = y and ?w5.0 = wy]
  from inst x have fx: "forceReinstall (ff_options x) = Some True" by simp
  from inst y have fy: "forceReinstall (ff_options y) = Some False" by simp
  from inst browser x ff
  have run: "installExtensionCommand example_env ?a example_system
             = (Resolved,
                example_system
                  \<lparr>firefox := snd (installExtensions example_env x [''smartlink-extension''] wx)\<rparr>)"
    by simp
  from inst
  have op: "forceReinstall (fst (new_Opera example_env (installerOptions ?a) (opera example_system)))
            = Some True"
    and oq: "forceReinstall
       (fst (new_Opera example_env (example_options\<lparr>forceReinstall := None\<rparr>)
               (opera example_system))) = Some False"
    by simp_all
  from undefined_flag x y fx fy run op oq show ?thesis by blast
qed

end
